theory Spec2Isabelle
  imports Main "HOL-Library.Word" "HOL-Library.Sublist" "HOL-Library.AList"
begin

unbundle bit_operations_syntax

section \<open>Python values, strings and exceptions\<close>

text \<open>
  A Python \<open>str\<close> is a sequence of Unicode code points, so it is modelled as a list of
  naturals. JSON allows an escape such as \<open>\ud800\<close> to denote a lone surrogate, and
  Python keeps it as a one-character string; such a string has no UTF-8 encoding.
  \<open>ascii\<close> turns an Isabelle literal into the Python string with the same characters.
\<close>

type_synonym pystr = "nat list"

definition ascii :: "string \<Rightarrow> pystr" where
  "ascii s = map of_char s"

text \<open>
  The values that \<open>json.loads\<close> can produce and \<open>json.dumps\<close> can print. A dictionary
  keeps its insertion order, so it is an association list. No arithmetic is ever done
  on a float here (floats only pass through, and the one float literal of the source
  is \<open>0.0\<close>), so a float is carried as the text that \<open>repr\<close> prints for it
  (\<open>nan\<close>, \<open>inf\<close> and \<open>-inf\<close> for the values that are not finite).
\<close>

datatype pyval =
    PNone
  | PBool bool
  | PInt int
  | PFloat pystr
  | PStr pystr
  | PList "pyval list"
  | PDict "(pystr \<times> pyval) list"

text \<open>
  An exception is its class, the text \<open>str(e)\<close> and, when it was raised while another
  exception was being handled (a \<open>raise Exception(...)\<close> inside an \<open>except\<close> clause),
  that other exception, which Python keeps as \<open>__context__\<close>. The message texts of
  the errors raised by the interpreter itself are those of CPython 3.11.
\<close>

datatype exc_class =
    ExceptionC
  | TypeErrorC
  | AttributeErrorC
  | KeyErrorC
  | UnicodeEncodeErrorC
  | JSONDecodeErrorC
  | TimeoutC
  | ConnectionErrorC
  | OtherErrorC

datatype exn =
    Exn exc_class pystr
  | Chained exc_class pystr exn

fun exc_class_of :: "exn \<Rightarrow> exc_class" where
  "exc_class_of (Exn c m) = c"
| "exc_class_of (Chained c m e) = c"

fun str_exn :: "exn \<Rightarrow> pystr" where
  "str_exn (Exn c m) = m"
| "str_exn (Chained c m e) = m"

fun exn_context :: "exn \<Rightarrow> exn option" where
  "exn_context (Exn c m) = None"
| "exn_context (Chained c m e) = Some e"

text \<open>\<open>type(v).__name__\<close>, as the interpreter's messages print it.\<close>

fun type_name :: "pyval \<Rightarrow> pystr" where
  "type_name PNone = ascii ''NoneType''"
| "type_name (PBool b) = ascii ''bool''"
| "type_name (PInt i) = ascii ''int''"
| "type_name (PFloat r) = ascii ''float''"
| "type_name (PStr s) = ascii ''str''"
| "type_name (PList xs) = ascii ''list''"
| "type_name (PDict kvs) = ascii ''dict''"

text \<open>A text between apostrophes (code point 39).\<close>

definition quoted :: "pystr \<Rightarrow> pystr" where
  "quoted s = [39] @ s @ [39]"

text \<open>Decimal text of an integer, as \<open>str\<close> and an f-string print it.\<close>

fun nat_str :: "nat \<Rightarrow> pystr" where
  "nat_str n = (if n < 10 then [48 + n] else nat_str (n div 10) @ [48 + n mod 10])"

definition int_str :: "int \<Rightarrow> pystr" where
  "int_str i = (if i < 0 then 45 # nat_str (nat (- i)) else nat_str (nat i))"

text \<open>Lowercase hexadecimal digits; a number below 65536 on four of them.\<close>

definition hex_digit :: "nat \<Rightarrow> nat" where
  "hex_digit n = (if n < 10 then 48 + n else 87 + n)"

definition hex4 :: "nat \<Rightarrow> pystr" where
  "hex4 n = map (\<lambda>i. hex_digit ((n div 16 ^ (3 - i)) mod 16)) [0..<4]"

section \<open>\<open>str.encode()\<close>: UTF-8\<close>

type_synonym byte = "8 word"

definition is_surrogate :: "nat \<Rightarrow> bool" where
  "is_surrogate c \<longleftrightarrow> 0xD800 \<le> c \<and> c \<le> 0xDFFF"

definition utf8_char :: "nat \<Rightarrow> byte list" where
  "utf8_char c =
     (if c < 0x80 then [of_nat c]
      else if c < 0x800 then [of_nat (0xC0 + c div 64), of_nat (0x80 + c mod 64)]
      else if c < 0x10000 then
        [of_nat (0xE0 + c div 4096), of_nat (0x80 + (c div 64) mod 64), of_nat (0x80 + c mod 64)]
      else
        [of_nat (0xF0 + c div 262144), of_nat (0x80 + (c div 4096) mod 64),
         of_nat (0x80 + (c div 64) mod 64), of_nat (0x80 + c mod 64)])"

text \<open>
  The encoder stops at the first surrogate and reports it together with the surrogates
  that follow it directly: \<open>surrogate_msg c i n\<close> is the text of the
  \<open>UnicodeEncodeError\<close> for the surrogate \<open>c\<close> at position \<open>i\<close> followed by \<open>n\<close>
  more.
\<close>

definition surrogate_msg :: "nat \<Rightarrow> nat \<Rightarrow> nat \<Rightarrow> pystr" where
  "surrogate_msg c i n =
     (if n = 0 then
        quoted (ascii ''utf-8'') @ ascii '' codec can't encode character '' @
        quoted ([92, 117] @ hex4 c) @ ascii '' in position '' @ nat_str i @
        ascii '': surrogates not allowed''
      else
        quoted (ascii ''utf-8'') @ ascii '' codec can't encode characters in position '' @
        nat_str i @ ascii ''-'' @ nat_str (i + n) @ ascii '': surrogates not allowed'')"

fun encode_from :: "nat \<Rightarrow> pystr \<Rightarrow> exn + byte list" where
  "encode_from i [] = Inr []"
| "encode_from i (c # cs) =
     (if is_surrogate c then
        Inl (Exn UnicodeEncodeErrorC (surrogate_msg c i (length (takeWhile is_surrogate cs))))
      else (case encode_from (Suc i) cs of
              Inl e \<Rightarrow> Inl e
            | Inr bs \<Rightarrow> Inr (utf8_char c @ bs)))"

definition encode :: "pystr \<Rightarrow> exn + byte list" where
  "encode s = encode_from 0 s"

section \<open>\<open>hashlib.sha256\<close> (FIPS 180-4)\<close>

type_synonym u32 = "32 word"

definition K256 :: "u32 list" where
  "K256 =
    [0x428A2F98, 0x71374491, 0xB5C0FBCF, 0xE9B5DBA5, 0x3956C25B, 0x59F111F1, 0x923F82A4, 0xAB1C5ED5,
     0xD807AA98, 0x12835B01, 0x243185BE, 0x550C7DC3, 0x72BE5D74, 0x80DEB1FE, 0x9BDC06A7, 0xC19BF174,
     0xE49B69C1, 0xEFBE4786, 0x0FC19DC6, 0x240CA1CC, 0x2DE92C6F, 0x4A7484AA, 0x5CB0A9DC, 0x76F988DA,
     0x983E5152, 0xA831C66D, 0xB00327C8, 0xBF597FC7, 0xC6E00BF3, 0xD5A79147, 0x06CA6351, 0x14292967,
     0x27B70A85, 0x2E1B2138, 0x4D2C6DFC, 0x53380D13, 0x650A7354, 0x766A0ABB, 0x81C2C92E, 0x92722C85,
     0xA2BFE8A1, 0xA81A664B, 0xC24B8B70, 0xC76C51A3, 0xD192E819, 0xD6990624, 0xF40E3585, 0x106AA070,
     0x19A4C116, 0x1E376C08, 0x2748774C, 0x34B0BCB5, 0x391C0CB3, 0x4ED8AA4A, 0x5B9CCA4F, 0x682E6FF3,
     0x748F82EE, 0x78A5636F, 0x84C87814, 0x8CC70208, 0x90BEFFFA, 0xA4506CEB, 0xBEF9A3F7, 0xC67178F2]"

definition Ch :: "u32 \<Rightarrow> u32 \<Rightarrow> u32 \<Rightarrow> u32" where
  "Ch x y z = (x AND y) XOR (NOT x AND z)"

definition Maj :: "u32 \<Rightarrow> u32 \<Rightarrow> u32 \<Rightarrow> u32" where
  "Maj x y z = (x AND y) XOR (x AND z) XOR (y AND z)"

definition bsig0 :: "u32 \<Rightarrow> u32" where
  "bsig0 x = word_rotr 2 x XOR word_rotr 13 x XOR word_rotr 22 x"

definition bsig1 :: "u32 \<Rightarrow> u32" where
  "bsig1 x = word_rotr 6 x XOR word_rotr 11 x XOR word_rotr 25 x"

definition ssig0 :: "u32 \<Rightarrow> u32" where
  "ssig0 x = word_rotr 7 x XOR word_rotr 18 x XOR drop_bit 3 x"

definition ssig1 :: "u32 \<Rightarrow> u32" where
  "ssig1 x = word_rotr 17 x XOR word_rotr 19 x XOR drop_bit 10 x"

text \<open>Padding: the bit 1, zeros up to 56 modulo 64 bytes, the bit length on 64 bits.\<close>

definition be_bytes :: "nat \<Rightarrow> nat \<Rightarrow> byte list" where
  "be_bytes k n = map (\<lambda>i. of_nat (n div 256 ^ (k - 1 - i))) [0..<k]"

definition sha_pad :: "byte list \<Rightarrow> byte list" where
  "sha_pad m =
     m @ [0x80] @ replicate ((119 - length m mod 64) mod 64) 0 @ be_bytes 8 (8 * length m)"

fun be32 :: "byte list \<Rightarrow> u32" where
  "be32 [] = 0"
| "be32 (b # bs) = push_bit (8 * length bs) (ucast b) OR be32 bs"

fun words_of :: "nat \<Rightarrow> byte list \<Rightarrow> u32 list" where
  "words_of 0 bs = []"
| "words_of (Suc n) bs = be32 (take 4 bs) # words_of n (drop 4 bs)"

text \<open>The message schedule: 16 words of the block, extended to 64.\<close>

fun extend :: "nat \<Rightarrow> u32 list \<Rightarrow> u32 list" where
  "extend 0 ws = ws"
| "extend (Suc n) ws =
     (let t = length ws in
      extend n (ws @ [ssig1 (ws ! (t - 2)) + ws ! (t - 7) + ssig0 (ws ! (t - 15)) + ws ! (t - 16)]))"

type_synonym sha_state = "u32 \<times> u32 \<times> u32 \<times> u32 \<times> u32 \<times> u32 \<times> u32 \<times> u32"

fun sha_round :: "u32 \<times> u32 \<Rightarrow> sha_state \<Rightarrow> sha_state" where
  "sha_round (k, w) (a, b, c, d, e, f, g, h) =
     (let t1 = h + bsig1 e + Ch e f g + k + w;
          t2 = bsig0 a + Maj a b c
      in (t1 + t2, a, b, c, d + t1, e, f, g))"

fun sha_add :: "sha_state \<Rightarrow> sha_state \<Rightarrow> sha_state" where
  "sha_add (a, b, c, d, e, f, g, h) (a', b', c', d', e', f', g', h') =
     (a + a', b + b', c + c', d + d', e + e', f + f', g + g', h + h')"

definition compress :: "sha_state \<Rightarrow> byte list \<Rightarrow> sha_state" where
  "compress s block =
     sha_add s (fold sha_round (zip K256 (extend 48 (words_of 16 block))) s)"

fun sha_blocks :: "nat \<Rightarrow> sha_state \<Rightarrow> byte list \<Rightarrow> sha_state" where
  "sha_blocks 0 s bs = s"
| "sha_blocks (Suc n) s bs = sha_blocks n (compress s (take 64 bs)) (drop 64 bs)"

definition sha_init :: sha_state where
  "sha_init = (0x6a09e667, 0xbb67ae85, 0x3c6ef372, 0xa54ff53a,
               0x510e527f, 0x9b05688c, 0x1f83d9ab, 0x5be0cd19)"

definition sha256 :: "byte list \<Rightarrow> sha_state" where
  "sha256 m = (let p = sha_pad m in sha_blocks (length p div 64) sha_init p)"

text \<open>\<open>hexdigest()\<close>: every byte of the digest as two lowercase hexadecimal digits.\<close>

definition hex32 :: "u32 \<Rightarrow> pystr" where
  "hex32 w = map (\<lambda>i. hex_digit (unat (drop_bit (28 - 4 * i) w AND 0xF))) [0..<8]"

fun hexdigest :: "sha_state \<Rightarrow> pystr" where
  "hexdigest (a, b, c, d, e, f, g, h) =
     hex32 a @ hex32 b @ hex32 c @ hex32 d @ hex32 e @ hex32 f @ hex32 g @ hex32 h"

section \<open>Python operations on values\<close>

text \<open>Sequencing of computations that may raise: the first exception wins.\<close>

definition sum_bind :: "exn + 'a \<Rightarrow> ('a \<Rightarrow> exn + 'b) \<Rightarrow> exn + 'b" where
  "sum_bind m f = (case m of Inl e \<Rightarrow> Inl e | Inr x \<Rightarrow> f x)"

text \<open>Truth value of an object, as \<open>not data\<close> tests it.\<close>

fun truthy :: "pyval \<Rightarrow> bool" where
  "truthy PNone = False"
| "truthy (PBool b) = b"
| "truthy (PInt i) = (i \<noteq> 0)"
| "truthy (PFloat r) = (r \<noteq> ascii ''0.0'' \<and> r \<noteq> ascii ''-0.0'')"
| "truthy (PStr s) = (s \<noteq> [])"
| "truthy (PList xs) = (xs \<noteq> [])"
| "truthy (PDict kvs) = (kvs \<noteq> [])"

text \<open>
  \<open>k in x\<close> for a string \<open>k\<close>: a key of a dictionary, an element of a list, a
  substring of a string; any other object is not iterable.
\<close>

fun py_in :: "pystr \<Rightarrow> pyval \<Rightarrow> exn + bool" where
  "py_in k (PDict kvs) = Inr (map_of kvs k \<noteq> None)"
| "py_in k (PList xs) = Inr (List.member xs (PStr k))"
| "py_in k (PStr s) = Inr (sublist k s)"
| "py_in k v =
     Inl (Exn TypeErrorC (ascii ''argument of type '' @ quoted (type_name v) @ ascii '' is not iterable''))"

text \<open>
  \<open>x[k]\<close> for a string \<open>k\<close>. The text of a \<open>KeyError\<close> is the \<open>repr\<close> of the key, which
  for the keys used here (plain words) is the key between apostrophes.
\<close>

fun py_getitem :: "pyval \<Rightarrow> pystr \<Rightarrow> exn + pyval" where
  "py_getitem (PDict kvs) k =
     (case map_of kvs k of Some v \<Rightarrow> Inr v | None \<Rightarrow> Inl (Exn KeyErrorC (quoted k)))"
| "py_getitem (PList xs) k = Inl (Exn TypeErrorC (ascii ''list indices must be integers or slices, not str''))"
| "py_getitem (PStr s) k = Inl (Exn TypeErrorC (ascii ''string indices must be integers, not 'str'' @ [39]))"
| "py_getitem v k = Inl (Exn TypeErrorC (quoted (type_name v) @ ascii '' object is not subscriptable''))"

text \<open>\<open>x.get(k, default)\<close>: only a dictionary has the method.\<close>

fun py_get :: "pyval \<Rightarrow> pystr \<Rightarrow> pyval \<Rightarrow> exn + pyval" where
  "py_get (PDict kvs) k d = Inr (case map_of kvs k of Some v \<Rightarrow> v | None \<Rightarrow> d)"
| "py_get v k d =
     Inl (Exn AttributeErrorC (quoted (type_name v) @ ascii '' object has no attribute '' @ quoted (ascii ''get'')))"

text \<open>\<open>x[k] = v\<close> for a string \<open>k\<close>: the key keeps its place if it is there already.\<close>

fun py_setitem :: "pyval \<Rightarrow> pystr \<Rightarrow> pyval \<Rightarrow> exn + pyval" where
  "py_setitem (PDict kvs) k v = Inr (PDict (AList.update k v kvs))"
| "py_setitem (PList xs) k v = Inl (Exn TypeErrorC (ascii ''list indices must be integers or slices, not str''))"
| "py_setitem x k v =
     Inl (Exn TypeErrorC (quoted (type_name x) @ ascii '' object does not support item assignment''))"

fun py_len :: "pyval \<Rightarrow> exn + nat" where
  "py_len (PStr s) = Inr (length s)"
| "py_len (PList xs) = Inr (length xs)"
| "py_len (PDict kvs) = Inr (length kvs)"
| "py_len v = Inl (Exn TypeErrorC (ascii ''object of type '' @ quoted (type_name v) @ ascii '' has no len()''))"

text \<open>\<open>x[:100]\<close>.\<close>

fun py_slice100 :: "pyval \<Rightarrow> exn + pyval" where
  "py_slice100 (PStr s) = Inr (PStr (take 100 s))"
| "py_slice100 (PList xs) = Inr (PList (take 100 xs))"
| "py_slice100 (PDict kvs) = Inl (Exn TypeErrorC (ascii ''unhashable type: '' @ quoted (ascii ''slice'')))"
| "py_slice100 v = Inl (Exn TypeErrorC (quoted (type_name v) @ ascii '' object is not subscriptable''))"

text \<open>
  \<open>sep.join(xs)\<close>: every item has to be a string; the error names the first item that
  is not, by its index.
\<close>

fun join_from :: "nat \<Rightarrow> pystr \<Rightarrow> pyval list \<Rightarrow> exn + pystr" where
  "join_from i sep [] = Inr []"
| "join_from i sep (PStr s # xs) =
     (case join_from (Suc i) sep xs of
        Inl e \<Rightarrow> Inl e
      | Inr r \<Rightarrow> Inr (if xs = [] then s else s @ sep @ r))"
| "join_from i sep (v # xs) =
     Inl (Exn TypeErrorC (ascii ''sequence item '' @ nat_str i @ ascii '': expected str instance, '' @
                          type_name v @ ascii '' found''))"

definition py_join :: "pystr \<Rightarrow> pyval list \<Rightarrow> exn + pystr" where
  "py_join sep xs = join_from 0 sep xs"

section \<open>\<open>json.dumps\<close>\<close>

text \<open>
  The default \<open>ensure_ascii=True\<close>: the escapes of \<open>json.encoder\<close>, and
  \<open>\uXXXX\<close> (a surrogate pair beyond the basic plane) for every character outside
  the printable ASCII range. Code points: 34 is the double quote, 92 the backslash,
  117 the letter u, 10 the newline, 32 the space. With the default \<open>allow_nan=True\<close>
  the floats that are not finite are printed \<open>NaN\<close>, \<open>Infinity\<close> and \<open>-Infinity\<close>.
\<close>

definition escape_char :: "nat \<Rightarrow> pystr" where
  "escape_char c =
     (if c = 34 then [92, 34]
      else if c = 92 then [92, 92]
      else if c = 10 then [92, 110]
      else if c = 13 then [92, 114]
      else if c = 9 then [92, 116]
      else if c = 12 then [92, 102]
      else if c = 8 then [92, 98]
      else if 32 \<le> c \<and> c \<le> 126 then [c]
      else if c < 0x10000 then [92, 117] @ hex4 c
      else [92, 117] @ hex4 (0xD800 + ((c - 0x10000) div 1024) mod 1024) @
           [92, 117] @ hex4 (0xDC00 + (c - 0x10000) mod 1024))"

definition json_str :: "pystr \<Rightarrow> pystr" where
  "json_str s = [34] @ concat (map escape_char s) @ [34]"

fun join_with :: "pystr \<Rightarrow> pystr list \<Rightarrow> pystr" where
  "join_with sep [] = []"
| "join_with sep [x] = x"
| "join_with sep (x # y # ys) = x @ sep @ join_with sep (y # ys)"

text \<open>
  \<open>indent\<close> is \<open>None\<close> (one line, separators \<open>", "\<close> and \<open>": "\<close>) or a number of
  spaces per level (one item per line, separators \<open>","\<close> and \<open>": "\<close>). An empty list
  or dictionary is \<open>[]\<close> or \<open>{}\<close> in both.
\<close>

definition newline_indent :: "nat option \<Rightarrow> nat \<Rightarrow> pystr" where
  "newline_indent indent level =
     (case indent of None \<Rightarrow> [] | Some n \<Rightarrow> 10 # replicate (n * level) 32)"

definition item_separator :: "nat option \<Rightarrow> nat \<Rightarrow> pystr" where
  "item_separator indent level =
     (case indent of None \<Rightarrow> ascii '', '' | Some n \<Rightarrow> ascii '','' @ newline_indent indent level)"

fun dumps_at :: "nat option \<Rightarrow> nat \<Rightarrow> pyval \<Rightarrow> pystr" where
  "dumps_at indent level PNone = ascii ''null''"
| "dumps_at indent level (PBool b) = (if b then ascii ''true'' else ascii ''false'')"
| "dumps_at indent level (PInt i) = int_str i"
| "dumps_at indent level (PFloat r) =
     (if r = ascii ''nan'' then ascii ''NaN''
      else if r = ascii ''inf'' then ascii ''Infinity''
      else if r = ascii ''-inf'' then ascii ''-Infinity''
      else r)"
| "dumps_at indent level (PStr s) = json_str s"
| "dumps_at indent level (PList xs) =
     (if xs = [] then ascii ''[]''
      else ascii ''['' @ newline_indent indent (Suc level) @
           join_with (item_separator indent (Suc level)) (map (dumps_at indent (Suc level)) xs) @
           newline_indent indent level @ ascii '']'')"
| "dumps_at indent level (PDict kvs) =
     (if kvs = [] then ascii ''{}''
      else ascii ''{'' @ newline_indent indent (Suc level) @
           join_with (item_separator indent (Suc level))
             (map (\<lambda>kv. json_str (fst kv) @ ascii '': '' @ dumps_at indent (Suc level) (snd kv)) kvs) @
           newline_indent indent level @ ascii ''}'')"

definition json_dumps :: "nat option \<Rightarrow> pyval \<Rightarrow> pystr" where
  "json_dumps indent v = dumps_at indent 0 v"

section \<open>The world outside: the network, the clock, the log files\<close>

text \<open>
  What the two modules do besides computing is made explicit. The \<open>env\<close> holds what
  the outside answers: the outcome of every HTTP request made through \<open>requests\<close>,
  what \<open>json.loads\<close> makes of a text, what \<open>repr\<close> prints for a list or a
  dictionary, the readings of the clock, and whether appending to the decision log
  fails. The \<open>world\<close> is what the program has done so far: the HTTP requests sent,
  the calls to \<open>logger\<close>, the chunks written to the decision log and the number of
  clock readings.
\<close>

datatype http_request =
    HttpGet pystr int
  | HttpPost pystr pyval int

record response =
  status_code :: int
  resp_text :: pystr
  resp_json :: "exn + pyval"

text \<open>
  \<open>requests\<close> raises \<open>Timeout\<close> (class \<open>TimeoutC\<close>; \<open>ConnectTimeout\<close>, which is
  also a \<open>ConnectionError\<close>, counts here since the \<open>except Timeout\<close> clause comes
  first), \<open>ConnectionError\<close> (\<open>ConnectionErrorC\<close>) or something else, or answers.
\<close>

datatype http_outcome =
    Raises exn
  | Responds response

datatype level = DEBUG | INFO | WARNING | ERROR

record env =
  requests_send :: "http_request \<Rightarrow> http_outcome"
  json_loads :: "pystr \<Rightarrow> exn + pyval"
  py_repr :: "pyval \<Rightarrow> pystr"
  utcnow_isoformat :: "nat \<Rightarrow> pystr"
  open_append_error :: "pystr \<Rightarrow> exn option"

record world =
  http_log :: "http_request list"
  log_records :: "(level \<times> pystr) list"
  audit_file :: "pystr list"
  clock :: nat

type_synonym 'a py = "world \<Rightarrow> (exn + 'a) \<times> world"

definition py_return :: "'a \<Rightarrow> 'a py" where
  "py_return x = (\<lambda>w. (Inr x, w))"

definition py_raise :: "exn \<Rightarrow> 'a py" where
  "py_raise e = (\<lambda>w. (Inl e, w))"

definition py_lift :: "exn + 'a \<Rightarrow> 'a py" where
  "py_lift r = (\<lambda>w. (r, w))"

definition py_bind :: "'a py \<Rightarrow> ('a \<Rightarrow> 'b py) \<Rightarrow> 'b py" where
  "py_bind m f = (\<lambda>w. case m w of (Inl e, w') \<Rightarrow> (Inl e, w') | (Inr x, w') \<Rightarrow> f x w')"

text \<open>\<open>try: m except Exception as e: h e\<close>.\<close>

definition py_except :: "'a py \<Rightarrow> (exn \<Rightarrow> 'a py) \<Rightarrow> 'a py" where
  "py_except m h = (\<lambda>w. case m w of (Inl e, w') \<Rightarrow> h e w' | (Inr x, w') \<Rightarrow> (Inr x, w'))"

definition logger :: "level \<Rightarrow> pystr \<Rightarrow> unit py" where
  "logger lvl msg = (\<lambda>w. (Inr (), w\<lparr>log_records := log_records w @ [(lvl, msg)]\<rparr>))"

definition utcnow :: "env \<Rightarrow> pystr py" where
  "utcnow env = (\<lambda>w. (Inr (utcnow_isoformat env (clock w)), w\<lparr>clock := Suc (clock w)\<rparr>))"

definition requests_call :: "env \<Rightarrow> http_request \<Rightarrow> response py" where
  "requests_call env req =
     (\<lambda>w. let w' = w\<lparr>http_log := http_log w @ [req]\<rparr>
          in case requests_send env req of
               Raises e \<Rightarrow> (Inl e, w')
             | Responds r \<Rightarrow> (Inr r, w'))"

text \<open>\<open>str(v)\<close>, as an f-string prints a value.\<close>

fun py_str :: "env \<Rightarrow> pyval \<Rightarrow> pystr" where
  "py_str env (PStr s) = s"
| "py_str env (PInt i) = int_str i"
| "py_str env PNone = ascii ''None''"
| "py_str env (PBool b) = (if b then ascii ''True'' else ascii ''False'')"
| "py_str env (PFloat r) = r"
| "py_str env v = py_repr env v"

section \<open>The inference client: \<open>ollama_client.py\<close>\<close>

record OllamaClient =
  host :: pystr
  model :: pystr
  timeout :: int

definition rstrip_slash :: "pystr \<Rightarrow> pystr" where
  "rstrip_slash s = rev (dropWhile (\<lambda>c. c = 47) (rev s))"

definition OllamaClient_init :: "pystr \<Rightarrow> pystr \<Rightarrow> int \<Rightarrow> OllamaClient py" where
  "OllamaClient_init host0 model0 timeout0 =
     (let self = \<lparr>host = rstrip_slash host0, model = model0, timeout = timeout0\<rparr>
      in py_bind (logger INFO (ascii ''Initialized OllamaClient for '' @ host self @
                               ascii '' with model '' @ model self))
           (\<lambda>_. py_return self))"

definition version_request :: "OllamaClient \<Rightarrow> http_request" where
  "version_request self = HttpGet (host self @ ascii ''/api/version'') 5"

definition is_healthy :: "env \<Rightarrow> OllamaClient \<Rightarrow> bool py" where
  "is_healthy env self =
     py_except
       (py_bind (requests_call env (version_request self))
          (\<lambda>response. py_return (status_code response = 200)))
       (\<lambda>e. py_bind (logger ERROR (ascii ''Ollama health check failed: '' @ str_exn e))
          (\<lambda>_. py_return False))"

text \<open>
  In \<open>get_version\<close> the \<open>try\<close> block returns only on status 200; every other path
  falls through to the final \<open>return "unknown"\<close>.
\<close>

definition get_version :: "env \<Rightarrow> OllamaClient \<Rightarrow> pyval py" where
  "get_version env self =
     py_bind
       (py_except
          (py_bind (requests_call env (version_request self))
             (\<lambda>response.
                if status_code response = 200 then
                  py_bind (py_lift (resp_json response))
                    (\<lambda>version_data.
                       py_bind (py_lift (py_get version_data (ascii ''version'') (PStr (ascii ''unknown''))))
                         (\<lambda>v. py_return (Some v)))
                else py_return None))
          (\<lambda>e. py_bind (logger ERROR (ascii ''Failed to get Ollama version: '' @ str_exn e))
             (\<lambda>_. py_return None)))
       (\<lambda>returned. case returned of Some v \<Rightarrow> py_return v | None \<Rightarrow> py_return (PStr (ascii ''unknown'')))"

definition query_payload :: "OllamaClient \<Rightarrow> pystr \<Rightarrow> pystr option \<Rightarrow> pyval" where
  "query_payload self prompt system =
     (let payload = [(ascii ''model'', PStr (model self)),
                     (ascii ''prompt'', PStr prompt),
                     (ascii ''stream'', PBool False)]
      in case system of
           None \<Rightarrow> PDict payload
         | Some s \<Rightarrow> if s \<noteq> [] then PDict (AList.update (ascii ''system'') (PStr s) payload)
                     else PDict payload)"

definition generate_request :: "OllamaClient \<Rightarrow> pystr \<Rightarrow> pystr option \<Rightarrow> http_request" where
  "generate_request self prompt system =
     HttpPost (host self @ ascii ''/api/generate'') (query_payload self prompt system) (timeout self)"

definition timeout_msg :: "OllamaClient \<Rightarrow> pystr" where
  "timeout_msg self = ascii ''Ollama request timed out after '' @ int_str (timeout self) @ ascii ''s''"

definition connect_msg :: "OllamaClient \<Rightarrow> exn \<Rightarrow> pystr" where
  "connect_msg self e = ascii ''Failed to connect to Ollama at '' @ host self @ ascii '': '' @ str_exn e"

definition status_msg :: "response \<Rightarrow> pystr" where
  "status_msg response =
     ascii ''Ollama API returned '' @ int_str (status_code response) @ ascii '': '' @ resp_text response"

text \<open>
  \<open>query\<close>: the three \<open>except\<close> clauses are tried in order, on the class of what was
  raised inside the \<open>try\<close>; the exception raised for a status other than 200 is raised
  inside it too, so the last clause logs it and raises it again. The exceptions raised
  in the first two clauses are raised while the \<open>Timeout\<close> or \<open>ConnectionError\<close> is
  being handled, which therefore is their context.
\<close>

definition query :: "env \<Rightarrow> OllamaClient \<Rightarrow> pystr \<Rightarrow> pystr option \<Rightarrow> pyval py" where
  "query env self prompt system =
     py_except
       (py_bind (logger INFO (ascii ''Querying Ollama model '' @ [39] @ model self @ [39])) (\<lambda>_.
        py_bind (logger DEBUG (ascii ''Prompt: '' @ take 100 prompt @ ascii ''...'')) (\<lambda>_.
        py_bind (requests_call env (generate_request self prompt system)) (\<lambda>response.
          if status_code response \<noteq> 200 then
            py_bind (logger ERROR (status_msg response)) (\<lambda>_.
            py_raise (Exn ExceptionC (status_msg response)))
          else
            py_bind (py_lift (resp_json response)) (\<lambda>response_data.
            py_bind (py_lift (py_get response_data (ascii ''response'') (PStr []))) (\<lambda>answer.
            py_bind (py_lift (py_len answer)) (\<lambda>n.
            py_bind (logger INFO (ascii ''Ollama response received ('' @ nat_str n @ ascii '' chars)'')) (\<lambda>_.
            py_bind (py_lift (py_slice100 answer)) (\<lambda>head.
            py_bind (logger DEBUG (ascii ''Response: '' @ py_str env head @ ascii ''...'')) (\<lambda>_.
            py_return answer))))))))))
       (\<lambda>e. case exc_class_of e of
               TimeoutC \<Rightarrow>
                 py_bind (logger ERROR (timeout_msg self)) (\<lambda>_.
                 py_raise (Chained ExceptionC (timeout_msg self) e))
             | ConnectionErrorC \<Rightarrow>
                 py_bind (logger ERROR (connect_msg self e)) (\<lambda>_.
                 py_raise (Chained ExceptionC (connect_msg self e) e))
             | _ \<Rightarrow>
                 py_bind (logger ERROR (ascii ''Unexpected error querying Ollama: '' @ str_exn e)) (\<lambda>_.
                 py_raise e))"

section \<open>The service: \<open>app.py\<close>\<close>

text \<open>
  \<open>sanitize_mac\<close>: \<open>f"device-{hashlib.sha256(mac.encode()).hexdigest()[:8]}"\<close>.
  Only a string has \<open>encode\<close>, and \<open>encode\<close> raises on a lone surrogate.
\<close>

fun sanitize_mac :: "pyval \<Rightarrow> exn + pystr" where
  "sanitize_mac (PStr mac) =
     sum_bind (encode mac) (\<lambda>bs. Inr (ascii ''device-'' @ take 8 (hexdigest (sha256 bs))))"
| "sanitize_mac v =
     Inl (Exn AttributeErrorC (quoted (type_name v) @ ascii '' object has no attribute '' @
                               quoted (ascii ''encode'')))"

text \<open>
  \<open>log_ai_decision\<close>: the entry is printed on one line and appended to the decision
  log; whatever goes wrong in that is logged and swallowed.
\<close>

definition append_audit :: "env \<Rightarrow> pystr \<Rightarrow> unit py" where
  "append_audit env chunk =
     (\<lambda>w. case open_append_error env chunk of
             Some e \<Rightarrow> (Inl e, w)
           | None \<Rightarrow> (Inr (), w\<lparr>audit_file := audit_file w @ [chunk]\<rparr>))"

definition audit_entry :: "pystr \<Rightarrow> pystr \<Rightarrow> pyval \<Rightarrow> pyval \<Rightarrow> pyval \<Rightarrow> pyval" where
  "audit_entry now query0 suggestion human_decision notes =
     PDict [(ascii ''timestamp'', PStr (now @ ascii ''Z'')),
            (ascii ''query'', PStr query0),
            (ascii ''ai_suggestion'', suggestion),
            (ascii ''human_decision'', human_decision),
            (ascii ''notes'', notes)]"

definition log_ai_decision :: "env \<Rightarrow> pystr \<Rightarrow> pyval \<Rightarrow> pyval \<Rightarrow> pyval \<Rightarrow> unit py" where
  "log_ai_decision env query0 suggestion human_decision notes =
     py_bind (utcnow env) (\<lambda>now.
       py_except
         (py_bind (append_audit env
                     (json_dumps None (audit_entry now query0 suggestion human_decision notes) @ [10])) (\<lambda>_.
          logger INFO (ascii ''AI decision logged: '' @ py_str env human_decision)))
         (\<lambda>e. logger ERROR (ascii ''Failed to log AI decision: '' @ str_exn e)))"

text \<open>\<open>not data or k1 not in data or k2 not in data\<close>, evaluated left to right.\<close>

definition missing_keys :: "pyval \<Rightarrow> pystr \<Rightarrow> pystr \<Rightarrow> exn + bool" where
  "missing_keys data k1 k2 =
     (if \<not> truthy data then Inr True
      else sum_bind (py_in k1 data) (\<lambda>has1.
             if \<not> has1 then Inr True
             else sum_bind (py_in k2 data) (\<lambda>has2. Inr (\<not> has2))))"

definition error_body :: "pystr \<Rightarrow> pyval" where
  "error_body msg = PDict [(ascii ''error'', PStr msg)]"

text \<open>
  The sanitizing loop, with its two accumulators \<open>sanitized_devices\<close> and
  \<open>mac_to_sanitized\<close>. An exception raised for one entry ends the loop.
\<close>

fun sanitize_devices ::
  "pyval list \<Rightarrow> pyval list \<times> (pyval \<times> pystr) list \<Rightarrow> exn + pyval list \<times> (pyval \<times> pystr) list"
where
  "sanitize_devices [] acc = Inr acc"
| "sanitize_devices (device # rest) (sanitized_devices, mac_to_sanitized) =
     sum_bind (py_in (ascii ''mac'') device) (\<lambda>has_mac.
       if \<not> has_mac then sanitize_devices rest (sanitized_devices, mac_to_sanitized)
       else
         sum_bind (py_getitem device (ascii ''mac'')) (\<lambda>mac.
         sum_bind (sanitize_mac mac) (\<lambda>sanitized_mac.
         sum_bind (py_get device (ascii ''signal'') (PInt 0)) (\<lambda>signal.
         sum_bind (py_get device (ascii ''hostname'') (PStr (ascii ''unknown''))) (\<lambda>hostname.
           sanitize_devices rest
             (sanitized_devices @
                [PDict [(ascii ''device_id'', PStr sanitized_mac),
                        (ascii ''signal'', signal),
                        (ascii ''hostname'', hostname)]],
              AList.update mac sanitized_mac mac_to_sanitized))))))"

text \<open>The prompt: the text of the f-string around its two holes.\<close>

definition prompt_head :: pystr where
  "prompt_head =
     [10] @ ascii ''You are a network assistant for a classroom environment. Analyze the following devices and suggest how to group them across SSIDs for optimal performance.'' @
     [10, 10] @ ascii ''Available SSIDs: ''"

definition prompt_devices :: pystr where
  "prompt_devices = [10, 10] @ ascii ''Devices:'' @ [10]"

definition prompt_tail :: pystr where
  \<open>prompt_tail =
     [10, 10] @ ascii ''Consider:'' @
     [10] @ ascii ''1. Signal strength (prefer devices with strong signals on primary SSID)'' @
     [10] @ ascii ''2. Load balancing (distribute devices evenly)'' @
     [10] @ ascii ''3. Device type (if hostname indicates purpose)'' @
     [10, 10] @ ascii ''Respond with JSON only in this format:'' @
     [10] @ ascii ''{'' @
     [10] @ ascii ''  "suggestion": {'' @
     [10] @ ascii ''    "lab-101": ["device-a1b2c3d4", "device-e5f6g7h8"],'' @
     [10] @ ascii ''    "quiet-corner": ["device-11223344"]'' @
     [10] @ ascii ''  },'' @
     [10] @ ascii ''  "confidence": 0.87,'' @
     [10] @ ascii ''  "reasoning": "Strong signal devices to lab-101 for bandwidth-heavy tasks, weaker signals to quiet-corner."'' @
     [10] @ ascii ''}'' @ [10]\<close>

definition build_prompt :: "pyval list \<Rightarrow> pyval list \<Rightarrow> exn + pystr" where
  "build_prompt ssids sanitized_devices =
     sum_bind (py_join (ascii '', '') ssids) (\<lambda>joined.
       Inr (prompt_head @ joined @ prompt_devices @
            json_dumps (Some 2) (PList sanitized_devices) @ prompt_tail))"

text \<open>
  \<open>json.loads\<close> takes a string (or bytes); the \<open>except json.JSONDecodeError\<close> around
  it catches that class only, and substitutes the fallback suggestion.
\<close>

definition py_json_loads :: "env \<Rightarrow> pyval \<Rightarrow> exn + pyval" where
  "py_json_loads env v =
     (case v of
        PStr s \<Rightarrow> json_loads env s
      | _ \<Rightarrow> Inl (Exn TypeErrorC (ascii ''the JSON object must be str, bytes or bytearray, not '' @
                                  type_name v)))"

definition fallback_suggestion :: pyval where
  "fallback_suggestion =
     PDict [(ascii ''suggestion'', PDict []),
            (ascii ''confidence'', PFloat (ascii ''0.0'')),
            (ascii ''reasoning'', PStr (ascii ''Ollama returned invalid response format''))]"

definition parse_response :: "env \<Rightarrow> pyval \<Rightarrow> pyval py" where
  "parse_response env ollama_response =
     (\<lambda>w. case py_json_loads env ollama_response of
             Inr suggestion \<Rightarrow> (Inr suggestion, w)
           | Inl e \<Rightarrow>
               if exc_class_of e = JSONDecodeErrorC then
                 py_bind (logger WARNING (ascii ''Ollama returned non-JSON response: '' @
                                          py_str env ollama_response))
                   (\<lambda>_. py_return fallback_suggestion) w
               else (Inl e, w))"

text \<open>
  The handler of \<open>POST /vlan-group\<close>, from the parsed request body on (what
  \<open>request.get_json()\<close> returned or raised). It is written in the three parts of the
  source. The first part, up to the prompt, touches nothing outside: it validates the
  input, sanitizes the devices and builds the prompt, and ends in an early return (the
  body given to \<open>jsonify\<close> and the status) or in the prompt.
\<close>

datatype prepared =
    EarlyReturn pyval int
  | Prepared "pyval list" "pyval list" pystr

definition prepare_prompt :: "pyval \<Rightarrow> exn + prepared" where
  "prepare_prompt data =
     sum_bind (missing_keys data (ascii ''ssids'') (ascii ''devices'')) (\<lambda>missing.
       if missing then
         Inr (EarlyReturn (error_body (ascii ''Missing 'ssids' or 'devices' in request'')) 400)
       else
         sum_bind (py_getitem data (ascii ''ssids'')) (\<lambda>ssids_v.
         sum_bind (py_getitem data (ascii ''devices'')) (\<lambda>devices_v.
           case (ssids_v, devices_v) of
             (PList ssids, PList devices) \<Rightarrow>
               sum_bind (sanitize_devices devices ([], [])) (\<lambda>sanitized.
               sum_bind (build_prompt ssids (fst sanitized)) (\<lambda>prompt.
                 Inr (Prepared ssids devices prompt)))
           | _ \<Rightarrow>
               Inr (EarlyReturn (error_body ([39] @ ascii ''ssids' and 'devices' must be arrays'')) 400))))"

text \<open>
  The last part, from the answer of the backend on: parse it, add the metadata, write
  the audit record, return.
\<close>

definition finish_suggestion :: "env \<Rightarrow> pyval list \<Rightarrow> pyval list \<Rightarrow> pyval \<Rightarrow> (pyval \<times> int) py" where
  "finish_suggestion env ssids devices ollama_response =
     py_bind (parse_response env ollama_response) (\<lambda>parsed.
     py_bind (py_lift (py_setitem parsed (ascii ''human_review_required'') (PBool True))) (\<lambda>reviewed.
     py_bind (utcnow env) (\<lambda>now.
     py_bind (py_lift (py_setitem reviewed (ascii ''timestamp'') (PStr (now @ ascii ''Z'')))) (\<lambda>suggestion.
     py_bind (log_ai_decision env
                (ascii ''Group '' @ nat_str (length devices) @ ascii '' devices across '' @
                 nat_str (length ssids) @ ascii '' SSIDs'')
                suggestion (PStr (ascii ''pending'')) (PStr (ascii ''AI suggestion generated''))) (\<lambda>_.
     py_return (suggestion, 200))))))"

definition suggest_vlan_grouping :: "env \<Rightarrow> OllamaClient \<Rightarrow> exn + pyval \<Rightarrow> (pyval \<times> int) py" where
  "suggest_vlan_grouping env ollama get_json =
     py_except
       (py_bind (py_lift get_json) (\<lambda>data.
        py_bind (py_lift (prepare_prompt data)) (\<lambda>p.
          case p of
            EarlyReturn body status \<Rightarrow> py_return (body, status)
          | Prepared ssids devices prompt \<Rightarrow>
              py_bind (logger INFO (ascii ''Querying Ollama for VLAN grouping ('' @
                                    nat_str (length devices) @ ascii '' devices)'')) (\<lambda>_.
              py_bind (query env ollama prompt None) (\<lambda>ollama_response.
              finish_suggestion env ssids devices ollama_response)))))
       (\<lambda>e. py_bind (logger ERROR (ascii ''Error in vlan-group endpoint: '' @ str_exn e)) (\<lambda>_.
            py_return (error_body (str_exn e), 500)))"

text \<open>The handler of \<open>POST /feedback\<close>.\<close>

definition record_feedback :: "env \<Rightarrow> exn + pyval \<Rightarrow> (pyval \<times> int) py" where
  "record_feedback env get_json =
     py_except
       (py_bind (py_lift get_json) (\<lambda>data.
        py_bind (py_lift (missing_keys data (ascii ''timestamp'') (ascii ''decision''))) (\<lambda>missing.
        if missing then
          py_return (error_body (ascii ''Missing 'timestamp' or 'decision'' @ [39]), 400)
        else
          py_bind (py_lift (py_getitem data (ascii ''timestamp''))) (\<lambda>timestamp.
          py_bind (py_lift (py_getitem data (ascii ''decision''))) (\<lambda>decision.
          py_bind (py_lift (py_get data (ascii ''notes'') (PStr []))) (\<lambda>notes.
          py_bind (logger INFO (ascii ''Recording feedback: '' @ py_str env decision @
                                ascii '' for '' @ py_str env timestamp)) (\<lambda>_.
          py_bind (log_ai_decision env (ascii ''Feedback for '' @ py_str env timestamp)
                     (PDict []) decision notes) (\<lambda>_.
          py_return (PDict [(ascii ''status'', PStr (ascii ''feedback recorded''))], 200)))))))))
       (\<lambda>e. py_bind (logger ERROR (ascii ''Error in feedback endpoint: '' @ str_exn e)) (\<lambda>_.
            py_return (error_body (str_exn e), 500)))"

section \<open>Example inputs\<close>

text \<open>
  A client as \<open>app.py\<close> constructs it, an empty world, and an environment in which
  every HTTP request has the given outcome and \<open>json.loads\<close> the given result.
\<close>

definition ex_client :: OllamaClient where
  "ex_client = \<lparr>host = ascii ''http://ollama:11434'', model = ascii ''llama3:8b'', timeout = 30\<rparr>"

definition ex_world :: world where
  "ex_world = \<lparr>http_log = [], log_records = [], audit_file = [], clock = 0\<rparr>"

definition ex_env :: "http_outcome \<Rightarrow> exn + pyval \<Rightarrow> env" where
  "ex_env outcome parsed =
     \<lparr>requests_send = (\<lambda>req. outcome),
      json_loads = (\<lambda>s. parsed),
      py_repr = (\<lambda>v. ascii ''...''),
      utcnow_isoformat = (\<lambda>n. ascii ''2025-01-19T14:23:45.00000'' @ nat_str n),
      open_append_error = (\<lambda>chunk. None)\<rparr>"

definition ex_answer :: "pystr \<Rightarrow> http_outcome" where
  "ex_answer text =
     Responds \<lparr>status_code = 200, resp_text = [],
               resp_json = Inr (PDict [(ascii ''response'', PStr text)])\<rparr>"

text \<open>A MAC address and the identifier \<open>sanitize_mac\<close> gives it.\<close>

definition ex_mac :: pystr where
  "ex_mac = ascii ''AA:BB:CC:DD:EE:FF''"

definition ex_id :: pystr where
  "ex_id = ascii ''device-'' @ take 8 (hexdigest (sha256 (concat (map utf8_char ex_mac))))"

text \<open>
  The request of the repository's tests with a second device entry, which has no
  \<open>mac\<close>, and the prompt that the handler composes for it.
\<close>

definition ex_ssids :: "pyval list" where
  "ex_ssids = [PStr (ascii ''lab-101''), PStr (ascii ''quiet-corner'')]"

definition ex_devices :: "pyval list" where
  "ex_devices =
     [PDict [(ascii ''mac'', PStr ex_mac), (ascii ''signal'', PInt (- 45)),
             (ascii ''hostname'', PStr (ascii ''laptop-1''))],
      PDict [(ascii ''signal'', PInt (- 70))]]"

definition ex_request :: pyval where
  "ex_request = PDict [(ascii ''ssids'', PList ex_ssids), (ascii ''devices'', PList ex_devices)]"

definition ex_prompt :: pystr where
  "ex_prompt =
     prompt_head @ ascii ''lab-101, quiet-corner'' @ prompt_devices @
     json_dumps (Some 2)
       (PList [PDict [(ascii ''device_id'', PStr ex_id), (ascii ''signal'', PInt (- 45)),
                      (ascii ''hostname'', PStr (ascii ''laptop-1''))]]) @
     prompt_tail"

text \<open>
  A request in which a device reports its MAC address as its hostname too, and the
  prompt that the handler composes for it.
\<close>

definition ex_leak_request :: pyval where
  "ex_leak_request =
     PDict [(ascii ''ssids'', PList [PStr (ascii ''lab-101'')]),
            (ascii ''devices'',
             PList [PDict [(ascii ''mac'', PStr ex_mac), (ascii ''hostname'', PStr ex_mac)]])]"

definition ex_leak_prompt :: pystr where
  \<open>ex_leak_prompt =
     (prompt_head @ ascii ''lab-101'' @ prompt_devices @
      ascii ''['' @ [10] @
      ascii ''  {'' @ [10] @
      ascii ''    "device_id": "'' @ ex_id @ ascii ''",'' @ [10] @
      ascii ''    "signal": 0,'' @ [10] @
      ascii ''    "hostname": "'')
     @ ex_mac @
     (ascii ''"'' @ [10] @ ascii ''  }'' @ [10] @ ascii '']'' @ prompt_tail)\<close>

text \<open>An environment in which the decision log cannot be opened for appending.\<close>

definition ex_env_readonly :: "http_outcome \<Rightarrow> exn + pyval \<Rightarrow> env" where
  "ex_env_readonly outcome parsed =
     (ex_env outcome parsed)
       \<lparr>open_append_error := (\<lambda>chunk. Some (Exn OtherErrorC (ascii ''[Errno 13] Permission denied'')))\<rparr>"

section \<open>The opaque identifier\<close>

lemma hex_digit_range: "n < 16 \<Longrightarrow> hex_digit n \<in> set (ascii ''0123456789abcdef'')"
proof -
  assume "n < 16"
  then have "n \<in> set [0..<16]" by simp
  moreover have "\<forall>k\<in>set [0..<16]. hex_digit k \<in> set (ascii ''0123456789abcdef'')"
    by (simp add: hex_digit_def ascii_def upt_rec)
  ultimately show ?thesis by blast
qed

lemma unat_low_nibble: "unat (w AND 0xF :: u32) < 16"
proof -
  have "unat (w AND 0xF) \<le> unat (0xF :: u32)"
    by (rule word_and_le1 [THEN word_le_nat_alt [THEN iffD1]])
  then show ?thesis by simp
qed

lemma length_hex32: "length (hex32 w) = 8"
  by (simp add: hex32_def)

lemma set_hex32: "set (hex32 w) \<subseteq> set (ascii ''0123456789abcdef'')"
  unfolding hex32_def using hex_digit_range [OF unat_low_nibble] by auto

lemma length_hexdigest: "length (hexdigest s) = 64"
  by (cases s rule: hexdigest.cases) (simp add: length_hex32)

lemma set_hexdigest: "set (hexdigest s) \<subseteq> set (ascii ''0123456789abcdef'')"
  using set_hex32 by (cases s rule: hexdigest.cases) (simp del: set_upt)

lemma encode_from_Inr:
  "\<forall>c\<in>set m. \<not> is_surrogate c \<Longrightarrow> encode_from i m = Inr (concat (map utf8_char m))"
  by (induction m arbitrary: i) simp_all

lemma encode_Inr: "\<forall>c\<in>set m. \<not> is_surrogate c \<Longrightarrow> encode m = Inr (concat (map utf8_char m))"
  by (simp add: encode_def encode_from_Inr)

text \<open>
  Claim C10, as amended. For every string \<open>m\<close> that has a UTF-8 encoding (no code point
  of \<open>m\<close> is a surrogate), \<open>sanitize_mac\<close> returns \<open>"device-"\<close> followed by the first 8
  characters of the hexadecimal SHA-256 digest of that encoding; these 8 characters are
  lowercase hexadecimal digits, and the identifier has length 15.
\<close>

theorem sanitize_mac_encodable:
  assumes "\<forall>c\<in>set m. \<not> is_surrogate c"
  shows "\<exists>h. sanitize_mac (PStr m) = Inr (ascii ''device-'' @ h)
           \<and> h = take 8 (hexdigest (sha256 (concat (map utf8_char m))))
           \<and> length h = 8
           \<and> set h \<subseteq> set (ascii ''0123456789abcdef'')
           \<and> length (ascii ''device-'' @ h) = 15"
proof -
  let ?h = "take 8 (hexdigest (sha256 (concat (map utf8_char m))))"
  have "sanitize_mac (PStr m) = Inr (ascii ''device-'' @ ?h)"
    using assms by (simp add: encode_Inr sum_bind_def)
  moreover have "length ?h = 8"
    by (simp add: length_hexdigest)
  moreover have "set ?h \<subseteq> set (ascii ''0123456789abcdef'')"
    using set_hexdigest set_take_subset by fast
  ultimately show ?thesis
    by (simp add: ascii_def)
qed

theorem sanitize_mac_encodable_witness:
  "\<exists>h. sanitize_mac (PStr (ascii ''AA:BB:CC:DD:EE:FF'')) = Inr (ascii ''device-'' @ h) \<and> length h = 8"
  using sanitize_mac_encodable [of "ascii ''AA:BB:CC:DD:EE:FF''"]
  by (simp add: ascii_def is_surrogate_def)

text \<open>
  Claim C10 as stated fails: \<open>sanitize_mac\<close> is not total over strings. On the
  one-character string made of the lone surrogate U+D800 (which \<open>json.loads\<close> produces
  from the escape \<open>\ud800\<close>), \<open>mac.encode()\<close> raises \<open>UnicodeEncodeError\<close> with the
  text \<open>'utf-8' codec can't encode character '\ud800' in position 0: surrogates not
  allowed\<close>.
\<close>

theorem sanitize_mac_lone_surrogate:
  "sanitize_mac (PStr [0xD800]) =
     Inl (Exn UnicodeEncodeErrorC
            (quoted (ascii ''utf-8'') @ ascii '' codec can't encode character '' @
             quoted ([92] @ ascii ''ud800'') @ ascii '' in position 0: surrogates not allowed''))"
  by (simp add: sum_bind_def is_surrogate_def encode_def surrogate_msg_def hex4_def hex_digit_def
        nat_str.simps ascii_def upt_rec)

section \<open>Running the computations\<close>

declare nat_str.simps [simp del]

lemmas py_defs = py_bind_def py_except_def py_return_def py_raise_def py_lift_def logger_def
  requests_call_def utcnow_def

lemma bind_logger: "py_bind (logger l m) f w = f () (w\<lparr>log_records := log_records w @ [(l, m)]\<rparr>)"
  by (simp add: py_bind_def logger_def)

lemma bind_lift_Inr: "py_bind (py_lift (Inr x)) f w = f x w"
  by (simp add: py_bind_def py_lift_def)

lemma bind_lift_Inl: "py_bind (py_lift (Inl e)) f w = (Inl e, w)"
  by (simp add: py_bind_def py_lift_def)

lemma bind_return: "py_bind (py_return x) f w = f x w"
  by (simp add: py_bind_def py_return_def)

lemma bind_raise: "py_bind (py_raise e) f w = (Inl e, w)"
  by (simp add: py_bind_def py_raise_def)

lemma run_return: "py_return x w = (Inr x, w)"
  by (simp add: py_return_def)

lemma run_raise: "py_raise e w = (Inl e, w)"
  by (simp add: py_raise_def)

lemma run_logger: "logger l m w = (Inr (), w\<lparr>log_records := log_records w @ [(l, m)]\<rparr>)"
  by (simp add: logger_def)

lemma run_except: "py_except m h w = (case m w of (Inl e, w') \<Rightarrow> h e w' | (Inr x, w') \<Rightarrow> (Inr x, w'))"
  by (simp add: py_except_def)


lemma bind_requests_Responds:
  "requests_send env req = Responds r \<Longrightarrow>
   py_bind (requests_call env req) f w = f r (w\<lparr>http_log := http_log w @ [req]\<rparr>)"
  by (simp add: py_bind_def requests_call_def Let_def)

lemma bind_utcnow:
  "py_bind (utcnow env) f w = f (utcnow_isoformat env (clock w)) (w\<lparr>clock := Suc (clock w)\<rparr>)"
  by (simp add: py_bind_def utcnow_def)

lemmas run_simps = bind_logger bind_lift_Inr bind_lift_Inl bind_return bind_raise run_return
  run_raise run_logger run_except bind_utcnow

section \<open>The inference client\<close>




lemma query_answer:
  assumes "requests_send env (generate_request self prompt system) = Responds r"
    and "status_code r = 200"
    and "resp_json r = Inr (PDict kvs)"
    and "map_of kvs (ascii ''response'') = Some (PStr answer)"
  shows "fst (query env self prompt system w) = Inr (PStr answer)"
    and "http_log (snd (query env self prompt system w)) = http_log w @ [generate_request self prompt system]"
    and "audit_file (snd (query env self prompt system w)) = audit_file w"
    and "clock (snd (query env self prompt system w)) = clock w"
  using assms by (simp_all add: query_def run_simps bind_requests_Responds)












text \<open>
  The two probes never raise: whatever the version request does, \<open>is_healthy\<close> returns
  whether it answered with status 200, and \<open>get_version\<close> returns what the answer holds
  under \<open>version\<close> when it answered with status 200 and a JSON object, and \<open>"unknown"\<close>
  in every other case.
\<close>

lemma probes_return:
  "fst (is_healthy env self w) =
     Inr (case requests_send env (version_request self) of
            Raises e \<Rightarrow> False
          | Responds r \<Rightarrow> status_code r = 200)
   \<and> fst (get_version env self w) =
     Inr (case requests_send env (version_request self) of
            Raises e \<Rightarrow> PStr (ascii ''unknown'')
          | Responds r \<Rightarrow>
              if status_code r = 200 then
                (case resp_json r of
                   Inr (PDict kvs) \<Rightarrow>
                     (case map_of kvs (ascii ''version'') of
                        Some v \<Rightarrow> v
                      | None \<Rightarrow> PStr (ascii ''unknown''))
                 | _ \<Rightarrow> PStr (ascii ''unknown''))
              else PStr (ascii ''unknown''))"
proof
  show "fst (is_healthy env self w) =
     Inr (case requests_send env (version_request self) of
            Raises e \<Rightarrow> False
          | Responds r \<Rightarrow> status_code r = 200)"
    by (simp add: is_healthy_def py_defs Let_def split: http_outcome.splits)
next
  show "fst (get_version env self w) =
     Inr (case requests_send env (version_request self) of
            Raises e \<Rightarrow> PStr (ascii ''unknown'')
          | Responds r \<Rightarrow>
              if status_code r = 200 then
                (case resp_json r of
                   Inr (PDict kvs) \<Rightarrow>
                     (case map_of kvs (ascii ''version'') of
                        Some v \<Rightarrow> v
                      | None \<Rightarrow> PStr (ascii ''unknown''))
                 | _ \<Rightarrow> PStr (ascii ''unknown''))
              else PStr (ascii ''unknown''))"
  proof (cases "requests_send env (version_request self)")
    case (Raises e)
    then show ?thesis
      by (simp add: get_version_def py_defs Let_def)
  next
    case (Responds r)
    show ?thesis
    proof (cases "resp_json r")
      case (Inl e)
      with Responds show ?thesis
        by (simp add: get_version_def py_defs Let_def)
    next
      case (Inr vd)
      with Responds show ?thesis
        by (cases vd) (simp_all add: get_version_def py_defs Let_def split: option.splits)
    qed
  qed
qed

text \<open>
  Claim C8: \<open>get_version\<close> does not always return the version string or \<open>"unknown"\<close>.
  Its docstring and its annotation \<open>-> str\<close> promise a string, and the code returns
  whatever JSON value the answer holds under \<open>version\<close>. When the version request is
  answered with status 200 and the body \<open>{"version": 7}\<close>, \<open>get_version\<close> returns the
  integer 7.
\<close>

theorem get_version_returns_number:
  \<open>fst (get_version
          (ex_env (Responds \<lparr>status_code = 200, resp_text = ascii ''{"version": 7}'',
                              resp_json = Inr (PDict [(ascii ''version'', PInt 7)])\<rparr>)
                  (Inr PNone))
          ex_client ex_world) = Inr (PInt 7)\<close>
  by (simp add: get_version_def py_defs Let_def ex_env_def)






section \<open>The sanitizing loop\<close>

declare sanitize_devices.simps(2) [simp del]

lemma sanitize_devices_skip:
  "map_of kvs (ascii ''mac'') = None \<Longrightarrow>
   sanitize_devices (PDict kvs # rest) (sd, macs) = sanitize_devices rest (sd, macs)"
  by (simp add: sum_bind_def sanitize_devices.simps(2))

lemma sanitize_devices_take:
  "map_of kvs (ascii ''mac'') = Some mac \<Longrightarrow> sanitize_mac mac = Inr h \<Longrightarrow>
   sanitize_devices (PDict kvs # rest) (sd, macs) =
     sanitize_devices rest
       (sd @ [PDict [(ascii ''device_id'', PStr h),
                     (ascii ''signal'', case map_of kvs (ascii ''signal'') of Some v \<Rightarrow> v | None \<Rightarrow> PInt 0),
                     (ascii ''hostname'', case map_of kvs (ascii ''hostname'') of Some v \<Rightarrow> v | None \<Rightarrow> PStr (ascii ''unknown''))]],
        AList.update mac h macs)"
  by (simp add: sum_bind_def sanitize_devices.simps(2))

lemma sanitize_devices_fail:
  "map_of kvs (ascii ''mac'') = Some mac \<Longrightarrow> sanitize_mac mac = Inl e \<Longrightarrow>
   sanitize_devices (PDict kvs # rest) (sd, macs) = Inl e"
  by (simp add: sum_bind_def sanitize_devices.simps(2))

lemma sanitize_devices_raise:
  "py_in (ascii ''mac'') device = Inl e \<Longrightarrow> sanitize_devices (device # rest) (sd, macs) = Inl e"
  by (simp add: sum_bind_def sanitize_devices.simps(2))

lemma sanitize_mac_str:
  "\<forall>c\<in>set m. \<not> is_surrogate c \<Longrightarrow>
   sanitize_mac (PStr m) = Inr (ascii ''device-'' @ take 8 (hexdigest (sha256 (concat (map utf8_char m)))))"
  by (simp add: encode_Inr sum_bind_def)

lemma sanitize_ex_mac: "sanitize_mac (PStr ex_mac) = Inr ex_id"
  unfolding ex_id_def by (rule sanitize_mac_str) (simp add: ex_mac_def ascii_def is_surrogate_def)

lemma sanitize_devices_dicts:
  assumes "\<forall>kvs\<in>set dicts.
             case map_of kvs (ascii ''mac'') of
               None \<Rightarrow> True
             | Some (PStr m) \<Rightarrow> (\<forall>c\<in>set m. \<not> is_surrogate c)
             | Some _ \<Rightarrow> False"
  shows "\<exists>sd macs'.
           sanitize_devices (map PDict dicts) (acc, macs) = Inr (acc @ sd, macs')
           \<and> list_all2
               (\<lambda>kvs r. \<exists>m.
                  map_of kvs (ascii ''mac'') = Some (PStr m)
                  \<and> r = PDict [(ascii ''device_id'',
                                PStr (ascii ''device-'' @ take 8 (hexdigest (sha256 (concat (map utf8_char m)))))),
                               (ascii ''signal'', case map_of kvs (ascii ''signal'') of Some v \<Rightarrow> v | None \<Rightarrow> PInt 0),
                               (ascii ''hostname'', case map_of kvs (ascii ''hostname'') of Some v \<Rightarrow> v | None \<Rightarrow> PStr (ascii ''unknown''))])
               (filter (\<lambda>kvs. map_of kvs (ascii ''mac'') \<noteq> None) dicts) sd"
  using assms
proof (induction dicts arbitrary: acc macs)
  case Nil
  then show ?case by simp
next
  case (Cons kvs dicts)
  show ?case
  proof (cases "map_of kvs (ascii ''mac'')")
    case None
    with Cons.IH [of acc macs] Cons.prems show ?thesis
      by (simp add: sanitize_devices_skip)
  next
    case (Some mac)
    with Cons.prems obtain m where m: "mac = PStr m" "\<forall>c\<in>set m. \<not> is_surrogate c"
      by (cases mac) auto
    define h where "h = ascii ''device-'' @ take 8 (hexdigest (sha256 (concat (map utf8_char m))))"
    have h: "sanitize_mac mac = Inr h"
      unfolding h_def m(1) by (rule sanitize_mac_str [OF m(2)])
    define r where "r = PDict [(ascii ''device_id'', PStr h),
                     (ascii ''signal'', case map_of kvs (ascii ''signal'') of Some v \<Rightarrow> v | None \<Rightarrow> PInt 0),
                     (ascii ''hostname'', case map_of kvs (ascii ''hostname'') of Some v \<Rightarrow> v | None \<Rightarrow> PStr (ascii ''unknown''))]"
    from Cons.prems have "\<forall>kvs\<in>set dicts.
             case map_of kvs (ascii ''mac'') of
               None \<Rightarrow> True
             | Some (PStr m) \<Rightarrow> (\<forall>c\<in>set m. \<not> is_surrogate c)
             | Some _ \<Rightarrow> False"
      by simp
    from Cons.IH [OF this, of "acc @ [r]" "AList.update mac h macs"]
    obtain sd macs' where
      sd: "sanitize_devices (map PDict dicts) (acc @ [r], AList.update mac h macs) = Inr ((acc @ [r]) @ sd, macs')"
      and rel: "list_all2
               (\<lambda>kvs r. \<exists>m.
                  map_of kvs (ascii ''mac'') = Some (PStr m)
                  \<and> r = PDict [(ascii ''device_id'',
                                PStr (ascii ''device-'' @ take 8 (hexdigest (sha256 (concat (map utf8_char m)))))),
                               (ascii ''signal'', case map_of kvs (ascii ''signal'') of Some v \<Rightarrow> v | None \<Rightarrow> PInt 0),
                               (ascii ''hostname'', case map_of kvs (ascii ''hostname'') of Some v \<Rightarrow> v | None \<Rightarrow> PStr (ascii ''unknown''))])
               (filter (\<lambda>kvs. map_of kvs (ascii ''mac'') \<noteq> None) dicts) sd"
      by blast
    have "sanitize_devices (map PDict (kvs # dicts)) (acc, macs) = Inr (acc @ (r # sd), macs')"
      using sd Some h by (simp add: sanitize_devices_take r_def)
    moreover have "list_all2
               (\<lambda>kvs r. \<exists>m.
                  map_of kvs (ascii ''mac'') = Some (PStr m)
                  \<and> r = PDict [(ascii ''device_id'',
                                PStr (ascii ''device-'' @ take 8 (hexdigest (sha256 (concat (map utf8_char m)))))),
                               (ascii ''signal'', case map_of kvs (ascii ''signal'') of Some v \<Rightarrow> v | None \<Rightarrow> PInt 0),
                               (ascii ''hostname'', case map_of kvs (ascii ''hostname'') of Some v \<Rightarrow> v | None \<Rightarrow> PStr (ascii ''unknown''))])
               (filter (\<lambda>kvs. map_of kvs (ascii ''mac'') \<noteq> None) (kvs # dicts)) (r # sd)"
      using rel Some m(1) by (simp add: r_def h_def)
    ultimately show ?thesis by blast
  qed
qed

section \<open>The stages of the handlers\<close>

lemma missing_keys_falsy: "\<not> truthy data \<Longrightarrow> missing_keys data k1 k2 = Inr True"
  by (simp add: missing_keys_def)

lemma missing_keys_dict:
  "missing_keys (PDict kvs) k1 k2 = Inr (kvs = [] \<or> map_of kvs k1 = None \<or> map_of kvs k2 = None)"
  by (auto simp: missing_keys_def sum_bind_def)

lemma missing_keys_raise:
  "truthy data \<Longrightarrow> py_in k1 data = Inl e \<Longrightarrow> missing_keys data k1 k2 = Inl e"
  by (simp add: missing_keys_def sum_bind_def)

lemma prepare_falsy:
  "\<not> truthy data \<Longrightarrow>
   prepare_prompt data =
     Inr (EarlyReturn (error_body (ascii ''Missing 'ssids' or 'devices' in request'')) 400)"
  by (simp add: prepare_prompt_def missing_keys_falsy sum_bind_def)

lemma prepare_missing:
  "map_of kvs (ascii ''ssids'') = None \<or> map_of kvs (ascii ''devices'') = None \<Longrightarrow>
   prepare_prompt (PDict kvs) =
     Inr (EarlyReturn (error_body (ascii ''Missing 'ssids' or 'devices' in request'')) 400)"
  by (auto simp: prepare_prompt_def missing_keys_dict sum_bind_def)

lemma prepare_not_lists:
  assumes "map_of kvs (ascii ''ssids'') = Some sv" and "map_of kvs (ascii ''devices'') = Some dv"
    and "\<not> (\<exists>ss ds. sv = PList ss \<and> dv = PList ds)"
  shows "prepare_prompt (PDict kvs) =
     Inr (EarlyReturn (error_body ([39] @ ascii ''ssids' and 'devices' must be arrays'')) 400)"
proof -
  from assms(1) have "kvs \<noteq> []" by auto
  with assms show ?thesis
    by (cases sv; cases dv) (simp_all add: prepare_prompt_def missing_keys_dict sum_bind_def)
qed

lemma prepare_lists:
  assumes "map_of kvs (ascii ''ssids'') = Some (PList ss)"
    and "map_of kvs (ascii ''devices'') = Some (PList ds)"
  shows "prepare_prompt (PDict kvs) =
     sum_bind (sanitize_devices ds ([], [])) (\<lambda>sanitized.
     sum_bind (build_prompt ss (fst sanitized)) (\<lambda>prompt.
       Inr (Prepared ss ds prompt)))"
proof -
  from assms(1) have "kvs \<noteq> []" by auto
  with assms show ?thesis
    by (simp add: prepare_prompt_def missing_keys_dict sum_bind_def)
qed

lemma suggest_early:
  "prepare_prompt data = Inr (EarlyReturn body status) \<Longrightarrow>
   suggest_vlan_grouping env ollama (Inr data) w = (Inr (body, status), w)"
  by (simp add: suggest_vlan_grouping_def run_simps)

lemma suggest_raises:
  "prepare_prompt data = Inl e \<Longrightarrow>
   suggest_vlan_grouping env ollama (Inr data) w =
     (Inr (error_body (str_exn e), 500),
      w\<lparr>log_records := log_records w @
           [(ERROR, ascii ''Error in vlan-group endpoint: '' @ str_exn e)]\<rparr>)"
  by (simp add: suggest_vlan_grouping_def run_simps)

lemma suggest_prepared:
  "prepare_prompt data = Inr (Prepared ssids devices prompt) \<Longrightarrow>
   suggest_vlan_grouping env ollama (Inr data) w =
     (case py_bind (query env ollama prompt None) (finish_suggestion env ssids devices)
             (w\<lparr>log_records := log_records w @
                  [(INFO, ascii ''Querying Ollama for VLAN grouping ('' @
                          nat_str (length devices) @ ascii '' devices)'')]\<rparr>) of
        (Inl e, w') \<Rightarrow>
          (Inr (error_body (str_exn e), 500),
           w'\<lparr>log_records := log_records w' @
                 [(ERROR, ascii ''Error in vlan-group endpoint: '' @ str_exn e)]\<rparr>)
      | (Inr x, w') \<Rightarrow> (Inr x, w'))"
  by (simp add: suggest_vlan_grouping_def run_simps split: prod.splits sum.splits)


lemma bind_query_Inr:
  "fst (query env ollama prompt system w) = Inr x \<Longrightarrow>
   py_bind (query env ollama prompt system) f w = f x (snd (query env ollama prompt system w))"
  by (cases "query env ollama prompt system w") (simp add: py_bind_def)

lemma log_ai_decision_run:
  "log_ai_decision env q s d n w =
     (Inr (),
      case open_append_error env (json_dumps None (audit_entry (utcnow_isoformat env (clock w)) q s d n) @ [10]) of
        None \<Rightarrow>
          w\<lparr>clock := Suc (clock w),
            audit_file := audit_file w @
              [json_dumps None (audit_entry (utcnow_isoformat env (clock w)) q s d n) @ [10]],
            log_records := log_records w @ [(INFO, ascii ''AI decision logged: '' @ py_str env d)]\<rparr>
      | Some e \<Rightarrow>
          w\<lparr>clock := Suc (clock w),
            log_records := log_records w @ [(ERROR, ascii ''Failed to log AI decision: '' @ str_exn e)]\<rparr>)"
  by (simp add: log_ai_decision_def append_audit_def py_defs split: option.splits)


lemma parse_ok:
  "json_loads env answer = Inr v \<Longrightarrow> parse_response env (PStr answer) w = (Inr v, w)"
  by (simp add: parse_response_def py_json_loads_def)

lemma bind_parse:
  "parse_response env resp w = (Inr v, w') \<Longrightarrow> py_bind (parse_response env resp) f w = f v w'"
  by (simp add: py_bind_def)

lemma bind_log_ai_decision:
  "py_bind (log_ai_decision env q s d n) f w = f () (snd (log_ai_decision env q s d n w))"
  by (simp add: py_bind_def log_ai_decision_run)

lemma finish_dict:
  assumes "parse_response env resp w = (Inr (PDict kvs), w')"
  shows "fst (finish_suggestion env ssids devices resp w) =
     Inr (PDict (AList.update (ascii ''timestamp'') (PStr (utcnow_isoformat env (clock w') @ ascii ''Z''))
                   (AList.update (ascii ''human_review_required'') (PBool True) kvs)), 200)"
    and "http_log (snd (finish_suggestion env ssids devices resp w)) = http_log w'"
  by (simp_all add: finish_suggestion_def bind_parse [OF assms] run_simps bind_log_ai_decision
        log_ai_decision_run split: option.splits)


lemma suggest_answered:
  assumes "prepare_prompt data = Inr (Prepared ssids devices prompt)"
    and "requests_send env (generate_request ollama prompt None) = Responds r"
    and "status_code r = 200"
    and "resp_json r = Inr (PDict kvs)"
    and "map_of kvs (ascii ''response'') = Some (PStr answer)"
  shows "\<exists>w1. clock w1 = clock w \<and> audit_file w1 = audit_file w
           \<and> http_log w1 = http_log w @ [generate_request ollama prompt None]
           \<and> fst (suggest_vlan_grouping env ollama (Inr data) w) =
               (case fst (finish_suggestion env ssids devices (PStr answer) w1) of
                  Inl e \<Rightarrow> Inr (error_body (str_exn e), 500)
                | Inr x \<Rightarrow> Inr x)
           \<and> http_log (snd (suggest_vlan_grouping env ollama (Inr data) w)) =
               http_log (snd (finish_suggestion env ssids devices (PStr answer) w1))"
proof -
  define w0 where "w0 = w\<lparr>log_records := log_records w @
                  [(INFO, ascii ''Querying Ollama for VLAN grouping ('' @
                          nat_str (length devices) @ ascii '' devices)'')]\<rparr>"
  define w1 where "w1 = snd (query env ollama prompt None w0)"
  note q = query_answer [OF assms(2-5), of w0]
  have "clock w1 = clock w" "audit_file w1 = audit_file w"
       "http_log w1 = http_log w @ [generate_request ollama prompt None]"
    using q(2-4) by (simp_all add: w1_def w0_def)
  moreover have "suggest_vlan_grouping env ollama (Inr data) w =
      (case finish_suggestion env ssids devices (PStr answer) w1 of
         (Inl e, w') \<Rightarrow>
           (Inr (error_body (str_exn e), 500),
            w'\<lparr>log_records := log_records w' @
                  [(ERROR, ascii ''Error in vlan-group endpoint: '' @ str_exn e)]\<rparr>)
       | (Inr x, w') \<Rightarrow> (Inr x, w'))"
    unfolding suggest_prepared [OF assms(1)] w0_def [symmetric]
    by (simp add: bind_query_Inr [OF q(1)] w1_def)
  ultimately show ?thesis
    by (intro exI [of _ w1]) (simp split: prod.splits sum.splits)
qed


lemma prepare_ex_request: "prepare_prompt ex_request = Inr (Prepared ex_ssids ex_devices ex_prompt)"
proof -
  have k: "map_of [(ascii ''mac'', PStr ex_mac), (ascii ''signal'', PInt (- 45)),
             (ascii ''hostname'', PStr (ascii ''laptop-1''))] (ascii ''mac'') = Some (PStr ex_mac)"
    by simp
  have n: "map_of [(ascii ''signal'', PInt (- 70))] (ascii ''mac'') = None"
    by (simp add: ascii_def)
  have s: "sanitize_devices ex_devices ([], []) =
     Inr ([PDict [(ascii ''device_id'', PStr ex_id), (ascii ''signal'', PInt (- 45)),
                  (ascii ''hostname'', PStr (ascii ''laptop-1''))]],
          [(PStr ex_mac, ex_id)])"
    unfolding ex_devices_def
    by (simp add: sanitize_devices_take [OF k sanitize_ex_mac] sanitize_devices_skip [OF n])
       (simp add: ascii_def)
  have b: "build_prompt ex_ssids
             [PDict [(ascii ''device_id'', PStr ex_id), (ascii ''signal'', PInt (- 45)),
                     (ascii ''hostname'', PStr (ascii ''laptop-1''))]] = Inr ex_prompt"
    by (simp add: build_prompt_def py_join_def sum_bind_def ex_ssids_def ex_prompt_def ascii_def)
  have "prepare_prompt ex_request =
     sum_bind (sanitize_devices ex_devices ([], [])) (\<lambda>sanitized.
     sum_bind (build_prompt ex_ssids (fst sanitized)) (\<lambda>prompt.
       Inr (Prepared ex_ssids ex_devices prompt)))"
    unfolding ex_request_def by (rule prepare_lists) (simp_all add: ascii_def)
  then show ?thesis by (simp add: s b sum_bind_def)
qed

section \<open>Device entries\<close>

text \<open>
  Claim C7, as amended. For a list of device entries that are JSON objects whose \<open>mac\<close>,
  where present, is a string with a UTF-8 encoding, the loop does not raise; the
  entries without \<open>mac\<close> are skipped, and every entry with one gives, in order, the
  record of its identifier (\<open>"device-"\<close> and the first 8 hexadecimal digits of the
  SHA-256 digest of the MAC string), its \<open>signal\<close> (0 when missing) and its \<open>hostname\<close>
  (\<open>"unknown"\<close> when missing). The handler then goes on to compose the prompt from
  exactly these records.
\<close>

theorem sanitize_skips_and_defaults:
  assumes "\<forall>kvs\<in>set dicts.
             case map_of kvs (ascii ''mac'') of
               None \<Rightarrow> True
             | Some (PStr m) \<Rightarrow> (\<forall>c\<in>set m. \<not> is_surrogate c)
             | Some _ \<Rightarrow> False"
  shows "\<exists>sd macs.
           sanitize_devices (map PDict dicts) ([], []) = Inr (sd, macs)
           \<and> list_all2
               (\<lambda>kvs r. \<exists>m.
                  map_of kvs (ascii ''mac'') = Some (PStr m)
                  \<and> r = PDict [(ascii ''device_id'',
                                PStr (ascii ''device-'' @ take 8 (hexdigest (sha256 (concat (map utf8_char m)))))),
                               (ascii ''signal'', case map_of kvs (ascii ''signal'') of Some v \<Rightarrow> v | None \<Rightarrow> PInt 0),
                               (ascii ''hostname'', case map_of kvs (ascii ''hostname'') of Some v \<Rightarrow> v | None \<Rightarrow> PStr (ascii ''unknown''))])
               (filter (\<lambda>kvs. map_of kvs (ascii ''mac'') \<noteq> None) dicts) sd
           \<and> (\<forall>request ss.
                 map_of request (ascii ''ssids'') = Some (PList ss)
                 \<and> map_of request (ascii ''devices'') = Some (PList (map PDict dicts))
                 \<longrightarrow> prepare_prompt (PDict request) =
                       sum_bind (build_prompt ss sd) (\<lambda>prompt. Inr (Prepared ss (map PDict dicts) prompt)))"
proof -
  from sanitize_devices_dicts [OF assms, of "[]" "[]"]
  obtain sd macs where
    sd: "sanitize_devices (map PDict dicts) ([], []) = Inr (sd, macs)"
    and rel: "list_all2
               (\<lambda>kvs r. \<exists>m.
                  map_of kvs (ascii ''mac'') = Some (PStr m)
                  \<and> r = PDict [(ascii ''device_id'',
                                PStr (ascii ''device-'' @ take 8 (hexdigest (sha256 (concat (map utf8_char m)))))),
                               (ascii ''signal'', case map_of kvs (ascii ''signal'') of Some v \<Rightarrow> v | None \<Rightarrow> PInt 0),
                               (ascii ''hostname'', case map_of kvs (ascii ''hostname'') of Some v \<Rightarrow> v | None \<Rightarrow> PStr (ascii ''unknown''))])
               (filter (\<lambda>kvs. map_of kvs (ascii ''mac'') \<noteq> None) dicts) sd"
    by auto
  have "prepare_prompt (PDict request) =
          sum_bind (build_prompt ss sd) (\<lambda>prompt. Inr (Prepared ss (map PDict dicts) prompt))"
    if "map_of request (ascii ''ssids'') = Some (PList ss)"
      and "map_of request (ascii ''devices'') = Some (PList (map PDict dicts))" for request ss
    by (simp add: prepare_lists [OF that] sd sum_bind_def)
  with sd rel show ?thesis by blast
qed

theorem sanitize_skips_and_defaults_witness:
  "sanitize_devices
     (map PDict [[(ascii ''mac'', PStr ex_mac), (ascii ''signal'', PInt (- 45))],
                 [(ascii ''hostname'', PStr (ascii ''printer''))]]) ([], []) =
   Inr ([PDict [(ascii ''device_id'', PStr ex_id), (ascii ''signal'', PInt (- 45)),
                (ascii ''hostname'', PStr (ascii ''unknown''))]],
        [(PStr ex_mac, ex_id)])"
proof -
  have "\<forall>kvs\<in>set [[(ascii ''mac'', PStr ex_mac), (ascii ''signal'', PInt (- 45))],
                   [(ascii ''hostname'', PStr (ascii ''printer''))]].
             case map_of kvs (ascii ''mac'') of
               None \<Rightarrow> True
             | Some (PStr m) \<Rightarrow> (\<forall>c\<in>set m. \<not> is_surrogate c)
             | Some _ \<Rightarrow> False"
    by (simp add: ascii_def ex_mac_def is_surrogate_def)
  from sanitize_skips_and_defaults [OF this]
  obtain sd macs where
    sd: "sanitize_devices
           (map PDict [[(ascii ''mac'', PStr ex_mac), (ascii ''signal'', PInt (- 45))],
                       [(ascii ''hostname'', PStr (ascii ''printer''))]]) ([], []) = Inr (sd, macs)"
    and rel: "list_all2
               (\<lambda>kvs r. \<exists>m.
                  map_of kvs (ascii ''mac'') = Some (PStr m)
                  \<and> r = PDict [(ascii ''device_id'',
                                PStr (ascii ''device-'' @ take 8 (hexdigest (sha256 (concat (map utf8_char m)))))),
                               (ascii ''signal'', case map_of kvs (ascii ''signal'') of Some v \<Rightarrow> v | None \<Rightarrow> PInt 0),
                               (ascii ''hostname'', case map_of kvs (ascii ''hostname'') of Some v \<Rightarrow> v | None \<Rightarrow> PStr (ascii ''unknown''))])
               (filter (\<lambda>kvs. map_of kvs (ascii ''mac'') \<noteq> None)
                  [[(ascii ''mac'', PStr ex_mac), (ascii ''signal'', PInt (- 45))],
                   [(ascii ''hostname'', PStr (ascii ''printer''))]]) sd"
    by blast
  have f: "filter (\<lambda>kvs. map_of kvs (ascii ''mac'') \<noteq> None)
             [[(ascii ''mac'', PStr ex_mac), (ascii ''signal'', PInt (- 45))],
              [(ascii ''hostname'', PStr (ascii ''printer''))]] =
           [[(ascii ''mac'', PStr ex_mac), (ascii ''signal'', PInt (- 45))]]"
    by (simp add: ascii_def)
  from rel have "sd = [PDict [(ascii ''device_id'', PStr ex_id), (ascii ''signal'', PInt (- 45)),
                (ascii ''hostname'', PStr (ascii ''unknown''))]]"
    unfolding f by (auto simp: list_all2_Cons1 ex_id_def) (simp_all add: ascii_def)
  moreover have "macs = [(PStr ex_mac, ex_id)]"
  proof -
    have k: "map_of [(ascii ''mac'', PStr ex_mac), (ascii ''signal'', PInt (- 45))] (ascii ''mac'') = Some (PStr ex_mac)"
      by simp
    have n: "map_of [(ascii ''hostname'', PStr (ascii ''printer''))] (ascii ''mac'') = None"
      by (simp add: ascii_def)
    from sd show ?thesis
      by (simp add: sanitize_devices_take [OF k sanitize_ex_mac] sanitize_devices_skip [OF n])
  qed
  ultimately show ?thesis using sd by simp
qed

text \<open>
  Claim C7 as stated fails: an entry without the \<open>mac\<close> field is not always skipped,
  and an entry with one does not always get an identifier. For the entry \<open>null\<close> the
  test \<open>"mac" not in device\<close> raises \<open>TypeError\<close>, and for the entry \<open>{"mac": null}\<close>
  \<open>mac.encode()\<close> raises \<open>AttributeError\<close>; either fails the whole request with
  status 500, before the backend is asked anything.
\<close>

theorem entry_without_mac_fails_request:
  "fst (suggest_vlan_grouping (ex_env (ex_answer (ascii ''{}'')) (Inr (PDict []))) ex_client
          (Inr (PDict [(ascii ''ssids'', PList ex_ssids), (ascii ''devices'', PList [PNone])]))
          ex_world) =
     Inr (error_body (ascii ''argument of type 'NoneType' is not iterable''), 500)
   \<and> http_log (snd (suggest_vlan_grouping (ex_env (ex_answer (ascii ''{}'')) (Inr (PDict []))) ex_client
          (Inr (PDict [(ascii ''ssids'', PList ex_ssids), (ascii ''devices'', PList [PNone])]))
          ex_world)) = []
   \<and> fst (suggest_vlan_grouping (ex_env (ex_answer (ascii ''{}'')) (Inr (PDict []))) ex_client
          (Inr (PDict [(ascii ''ssids'', PList ex_ssids),
                       (ascii ''devices'', PList [PDict [(ascii ''mac'', PNone)]])]))
          ex_world) =
     Inr (error_body (quoted (ascii ''NoneType'') @ ascii '' object has no attribute '' @
                      quoted (ascii ''encode'')), 500)"
proof -
  have a: "prepare_prompt (PDict [(ascii ''ssids'', PList ex_ssids), (ascii ''devices'', PList [PNone])]) =
           Inl (Exn TypeErrorC (ascii ''argument of type 'NoneType' is not iterable''))"
    by (subst prepare_lists [of _ ex_ssids "[PNone]"])
       (simp_all add: sanitize_devices_raise sum_bind_def quoted_def, simp_all add: ascii_def)
  have k: "map_of [(ascii ''mac'', PNone)] (ascii ''mac'') = Some PNone"
    by simp
  have b: "prepare_prompt (PDict [(ascii ''ssids'', PList ex_ssids),
                       (ascii ''devices'', PList [PDict [(ascii ''mac'', PNone)]])]) =
           Inl (Exn AttributeErrorC (quoted (ascii ''NoneType'') @ ascii '' object has no attribute '' @
                      quoted (ascii ''encode'')))"
    by (subst prepare_lists [of _ ex_ssids "[PDict [(ascii ''mac'', PNone)]]"])
       (simp_all add: sanitize_devices_fail [OF k] sum_bind_def, simp_all add: ascii_def)
  show ?thesis
    by (simp add: suggest_raises [OF a] suggest_raises [OF b] ex_world_def)
qed

section \<open>What reaches the prompt\<close>

text \<open>Hexadecimal digits and the characters of a MAC address need no JSON escape.\<close>

lemma escape_hex: "c \<in> set (ascii ''0123456789abcdef'') \<Longrightarrow> escape_char c = [c]"
  by (auto simp: ascii_def escape_char_def)

lemma escape_hex_str:
  "set s \<subseteq> set (ascii ''0123456789abcdef'') \<Longrightarrow> concat (map escape_char s) = s"
proof (induction s)
  case Nil
  then show ?case by simp
next
  case (Cons a s)
  then have "a \<in> set (ascii ''0123456789abcdef'')" and "set s \<subseteq> set (ascii ''0123456789abcdef'')"
    by auto
  with Cons.IH show ?case
    by (simp add: escape_hex)
qed

lemma escape_ex_id: "concat (map escape_char ex_id) = ex_id"
proof -
  have "concat (map escape_char (ascii ''device-'')) = ascii ''device-''"
    by (simp add: ascii_def escape_char_def)
  moreover have "concat (map escape_char (take 8 (hexdigest (sha256 (concat (map utf8_char ex_mac))))))
        = take 8 (hexdigest (sha256 (concat (map utf8_char ex_mac))))"
    using set_hexdigest set_take_subset by (intro escape_hex_str) fast
  ultimately show ?thesis
    by (simp add: ex_id_def)
qed

lemma escape_ex_mac: "concat (map escape_char ex_mac) = ex_mac"
  by (simp add: ex_mac_def ascii_def escape_char_def)

lemma newline_indent_2:
  "newline_indent (Some 2) 0 = [10]"
  "newline_indent (Some 2) (Suc 0) = [10, 32, 32]"
  "newline_indent (Some 2) (Suc (Suc 0)) = [10, 32, 32, 32, 32]"
  by (simp_all add: newline_indent_def eval_nat_numeral)

lemma prepare_ex_leak_request:
  "prepare_prompt ex_leak_request =
     Inr (Prepared [PStr (ascii ''lab-101'')]
            [PDict [(ascii ''mac'', PStr ex_mac), (ascii ''hostname'', PStr ex_mac)]] ex_leak_prompt)"
proof -
  have k: "map_of [(ascii ''mac'', PStr ex_mac), (ascii ''hostname'', PStr ex_mac)] (ascii ''mac'') = Some (PStr ex_mac)"
    by simp
  have s: "sanitize_devices [PDict [(ascii ''mac'', PStr ex_mac), (ascii ''hostname'', PStr ex_mac)]] ([], []) =
     Inr ([PDict [(ascii ''device_id'', PStr ex_id), (ascii ''signal'', PInt 0),
                  (ascii ''hostname'', PStr ex_mac)]],
          [(PStr ex_mac, ex_id)])"
    by (simp add: sanitize_devices_take [OF k sanitize_ex_mac]) (simp add: ascii_def)
  have b: "build_prompt [PStr (ascii ''lab-101'')]
        [PDict [(ascii ''device_id'', PStr ex_id), (ascii ''signal'', PInt 0),
                (ascii ''hostname'', PStr ex_mac)]] = Inr ex_leak_prompt"
    by (simp add: build_prompt_def py_join_def sum_bind_def json_dumps_def newline_indent_2
          item_separator_def json_str_def escape_ex_id escape_ex_mac int_str_def nat_str.simps
          ex_leak_prompt_def)
       (simp add: ascii_def escape_char_def)
  have "prepare_prompt ex_leak_request =
     sum_bind (sanitize_devices [PDict [(ascii ''mac'', PStr ex_mac), (ascii ''hostname'', PStr ex_mac)]] ([], []))
       (\<lambda>sanitized.
     sum_bind (build_prompt [PStr (ascii ''lab-101'')] (fst sanitized)) (\<lambda>prompt.
       Inr (Prepared [PStr (ascii ''lab-101'')]
              [PDict [(ascii ''mac'', PStr ex_mac), (ascii ''hostname'', PStr ex_mac)]] prompt)))"
    unfolding ex_leak_request_def by (rule prepare_lists) (simp_all add: ascii_def)
  then show ?thesis by (simp add: s b sum_bind_def)
qed

text \<open>
  Claim C1: a raw MAC string can reach the backend. Only the \<open>mac\<close> field of a device
  entry is hashed; its \<open>hostname\<close> is forwarded as it is. For the request
  \<open>{"ssids": ["lab-101"], "devices": [{"mac": "AA:BB:CC:DD:EE:FF", "hostname":
  "AA:BB:CC:DD:EE:FF"}]}\<close> of a device that reports its MAC address as its hostname,
  the handler sends the backend one request, whose prompt holds the hashed identifier
  and, under \<open>hostname\<close>, the MAC address itself.
\<close>

theorem raw_mac_in_prompt:
  "http_log (snd (suggest_vlan_grouping (ex_env (ex_answer (ascii ''{}'')) (Inr (PDict []))) ex_client
                    (Inr ex_leak_request) ex_world)) =
     [HttpPost (ascii ''http://ollama:11434/api/generate'')
        (PDict [(ascii ''model'', PStr (ascii ''llama3:8b'')),
                (ascii ''prompt'', PStr ex_leak_prompt),
                (ascii ''stream'', PBool False)])
        30]
   \<and> sublist (ascii ''AA:BB:CC:DD:EE:FF'') ex_leak_prompt"
proof
  let ?env = "ex_env (ex_answer (ascii ''{}'')) (Inr (PDict []))"
  have p: "parse_response ?env (PStr (ascii ''{}'')) w = (Inr (PDict []), w)" for w
    by (rule parse_ok) (simp add: ex_env_def)
  from suggest_answered [OF prepare_ex_leak_request, of ?env ex_client _ "[(ascii ''response'', PStr (ascii ''{}''))]" "ascii ''{}''" ex_world]
  obtain w1 where
    "http_log w1 = http_log ex_world @ [generate_request ex_client ex_leak_prompt None]"
    "http_log (snd (suggest_vlan_grouping ?env ex_client (Inr ex_leak_request) ex_world)) =
       http_log (snd (finish_suggestion ?env [PStr (ascii ''lab-101'')]
          [PDict [(ascii ''mac'', PStr ex_mac), (ascii ''hostname'', PStr ex_mac)]] (PStr (ascii ''{}'')) w1))"
    by (auto simp: ex_env_def ex_answer_def)
  then show "http_log (snd (suggest_vlan_grouping ?env ex_client (Inr ex_leak_request) ex_world)) =
     [HttpPost (ascii ''http://ollama:11434/api/generate'')
        (PDict [(ascii ''model'', PStr (ascii ''llama3:8b'')),
                (ascii ''prompt'', PStr ex_leak_prompt),
                (ascii ''stream'', PBool False)])
        30]"
    unfolding finish_dict(2) [OF p]
    by (simp add: ex_world_def generate_request_def query_payload_def ex_client_def ascii_def)
next
  have "sublist ex_mac ex_leak_prompt"
    unfolding ex_leak_prompt_def by (rule sublist_appendI)
  then show "sublist (ascii ''AA:BB:CC:DD:EE:FF'') ex_leak_prompt"
    by (simp add: ex_mac_def)
qed

section \<open>Requests that are rejected\<close>

text \<open>
  Claim C3, as amended. A request body that is empty (\<open>null\<close>, \<open>{}\<close>, \<open>[]\<close>, \<open>""\<close>, 0,
  \<open>false\<close>), or that is a JSON object without \<open>ssids\<close> or without \<open>devices\<close>, is
  answered with status 400 and the reason \<open>"Missing 'ssids' or 'devices' in
  request"\<close>; a JSON object in which \<open>ssids\<close> or \<open>devices\<close> is not a list is answered
  with status 400 and the reason \<open>"'ssids' and 'devices' must be arrays"\<close>. In both
  cases the handler leaves the world as it found it: no request is sent to the
  backend, and nothing is logged or written.
\<close>

theorem invalid_request_rejected:
  "(\<not> truthy data \<longrightarrow>
      suggest_vlan_grouping env ollama (Inr data) w =
        (Inr (error_body (ascii ''Missing 'ssids' or 'devices' in request''), 400), w))
   \<and> (data = PDict kvs \<and> (map_of kvs (ascii ''ssids'') = None \<or> map_of kvs (ascii ''devices'') = None) \<longrightarrow>
      suggest_vlan_grouping env ollama (Inr data) w =
        (Inr (error_body (ascii ''Missing 'ssids' or 'devices' in request''), 400), w))
   \<and> (data = PDict kvs \<and> map_of kvs (ascii ''ssids'') = Some sv \<and> map_of kvs (ascii ''devices'') = Some dv
        \<and> \<not> (\<exists>ss ds. sv = PList ss \<and> dv = PList ds) \<longrightarrow>
      suggest_vlan_grouping env ollama (Inr data) w =
        (Inr (error_body ([39] @ ascii ''ssids' and 'devices' must be arrays''), 400), w))"
proof (intro conjI impI)
  assume "\<not> truthy data"
  then show "suggest_vlan_grouping env ollama (Inr data) w =
        (Inr (error_body (ascii ''Missing 'ssids' or 'devices' in request''), 400), w)"
    by (rule suggest_early [OF prepare_falsy])
next
  assume "data = PDict kvs \<and> (map_of kvs (ascii ''ssids'') = None \<or> map_of kvs (ascii ''devices'') = None)"
  then show "suggest_vlan_grouping env ollama (Inr data) w =
        (Inr (error_body (ascii ''Missing 'ssids' or 'devices' in request''), 400), w)"
    using suggest_early [OF prepare_missing] by blast
next
  assume "data = PDict kvs \<and> map_of kvs (ascii ''ssids'') = Some sv \<and> map_of kvs (ascii ''devices'') = Some dv
        \<and> \<not> (\<exists>ss ds. sv = PList ss \<and> dv = PList ds)"
  then show "suggest_vlan_grouping env ollama (Inr data) w =
        (Inr (error_body ([39] @ ascii ''ssids' and 'devices' must be arrays''), 400), w)"
    using suggest_early [OF prepare_not_lists] by blast
qed

theorem invalid_request_rejected_witness:
  "suggest_vlan_grouping (ex_env (ex_answer (ascii ''{}'')) (Inr (PDict []))) ex_client
     (Inr (PDict [(ascii ''devices'', PList ex_devices)])) ex_world =
     (Inr (error_body (ascii ''Missing 'ssids' or 'devices' in request''), 400), ex_world)
   \<and> suggest_vlan_grouping (ex_env (ex_answer (ascii ''{}'')) (Inr (PDict []))) ex_client
     (Inr (PDict [(ascii ''ssids'', PStr (ascii ''lab-101'')), (ascii ''devices'', PList ex_devices)])) ex_world =
     (Inr (error_body ([39] @ ascii ''ssids' and 'devices' must be arrays''), 400), ex_world)
   \<and> suggest_vlan_grouping (ex_env (ex_answer (ascii ''{}'')) (Inr (PDict []))) ex_client
     (Inr (PDict [])) ex_world =
     (Inr (error_body (ascii ''Missing 'ssids' or 'devices' in request''), 400), ex_world)"
  using invalid_request_rejected
          [of "PDict [(ascii ''devices'', PList ex_devices)]"
              "ex_env (ex_answer (ascii ''{}'')) (Inr (PDict []))" ex_client ex_world
              "[(ascii ''devices'', PList ex_devices)]",
           THEN conjunct2, THEN conjunct1]
        invalid_request_rejected
          [of "PDict [(ascii ''ssids'', PStr (ascii ''lab-101'')), (ascii ''devices'', PList ex_devices)]"
              "ex_env (ex_answer (ascii ''{}'')) (Inr (PDict []))" ex_client ex_world
              "[(ascii ''ssids'', PStr (ascii ''lab-101'')), (ascii ''devices'', PList ex_devices)]"
              "PStr (ascii ''lab-101'')" "PList ex_devices",
           THEN conjunct2, THEN conjunct2]
        invalid_request_rejected
          [of "PDict []" "ex_env (ex_answer (ascii ''{}'')) (Inr (PDict []))" ex_client ex_world,
           THEN conjunct1]
  by (simp add: ascii_def)

text \<open>
  Claim C3 as stated fails: the handler checks that \<open>ssids\<close> and \<open>devices\<close> are there
  and are lists, and nothing more. The request \<open>{"ssids": [], "devices": []}\<close>, whose
  list of SSID names is empty, is accepted: the backend is queried and the answer is
  returned with status 200. And the request body \<open>5\<close>, which has neither \<open>ssids\<close> nor
  \<open>devices\<close>, is answered with status 500, not 400, because \<open>"ssids" not in data\<close>
  raises \<open>TypeError\<close>.
\<close>

theorem empty_ssids_accepted:
  "fst (suggest_vlan_grouping (ex_env (ex_answer (ascii ''{}'')) (Inr (PDict []))) ex_client
          (Inr (PDict [(ascii ''ssids'', PList []), (ascii ''devices'', PList [])])) ex_world) =
     Inr (PDict [(ascii ''human_review_required'', PBool True),
                 (ascii ''timestamp'', PStr (ascii ''2025-01-19T14:23:45.000000Z''))], 200)
   \<and> http_log (snd (suggest_vlan_grouping (ex_env (ex_answer (ascii ''{}'')) (Inr (PDict []))) ex_client
          (Inr (PDict [(ascii ''ssids'', PList []), (ascii ''devices'', PList [])])) ex_world)) =
     [generate_request ex_client (prompt_head @ prompt_devices @ ascii ''[]'' @ prompt_tail) None]
   \<and> fst (suggest_vlan_grouping (ex_env (ex_answer (ascii ''{}'')) (Inr (PDict []))) ex_client
          (Inr (PInt 5)) ex_world) =
     Inr (error_body (ascii ''argument of type 'int' is not iterable''), 500)"
proof -
  let ?env = "ex_env (ex_answer (ascii ''{}'')) (Inr (PDict []))"
  let ?data = "PDict [(ascii ''ssids'', PList []), (ascii ''devices'', PList [])]"
  let ?prompt = "prompt_head @ prompt_devices @ ascii ''[]'' @ prompt_tail"
  have m1: "map_of [(ascii ''ssids'', PList []), (ascii ''devices'', PList [])] (ascii ''ssids'') = Some (PList [])"
    by simp
  have m2: "map_of [(ascii ''ssids'', PList []), (ascii ''devices'', PList [])] (ascii ''devices'') = Some (PList [])"
    by (simp add: ascii_def)
  have prep: "prepare_prompt ?data = Inr (Prepared [] [] ?prompt)"
    by (simp add: prepare_lists [OF m1 m2] sum_bind_def build_prompt_def py_join_def json_dumps_def)
  have p: "parse_response ?env (PStr (ascii ''{}'')) w = (Inr (PDict []), w)" for w
    by (rule parse_ok) (simp add: ex_env_def)
  from suggest_answered [OF prep, of ?env ex_client _ "[(ascii ''response'', PStr (ascii ''{}''))]" "ascii ''{}''" ex_world]
  obtain w1 where w1: "clock w1 = clock ex_world"
    "http_log w1 = http_log ex_world @ [generate_request ex_client ?prompt None]"
    and r: "fst (suggest_vlan_grouping ?env ex_client (Inr ?data) ex_world) =
               (case fst (finish_suggestion ?env [] [] (PStr (ascii ''{}'')) w1) of
                  Inl e \<Rightarrow> Inr (error_body (str_exn e), 500)
                | Inr x \<Rightarrow> Inr x)"
    and h: "http_log (snd (suggest_vlan_grouping ?env ex_client (Inr ?data) ex_world)) =
       http_log (snd (finish_suggestion ?env [] [] (PStr (ascii ''{}'')) w1))"
    by (auto simp: ex_env_def ex_answer_def)
  have one: "fst (suggest_vlan_grouping ?env ex_client (Inr ?data) ex_world) =
     Inr (PDict [(ascii ''human_review_required'', PBool True),
                 (ascii ''timestamp'', PStr (ascii ''2025-01-19T14:23:45.000000Z''))], 200)"
    unfolding r finish_dict(1) [OF p]
    by (simp add: w1(1) ex_world_def ex_env_def nat_str.simps) (simp add: ascii_def)
  have two: "http_log (snd (suggest_vlan_grouping ?env ex_client (Inr ?data) ex_world)) =
     [generate_request ex_client ?prompt None]"
    unfolding h finish_dict(2) [OF p] by (simp add: w1(2) ex_world_def)
  have "prepare_prompt (PInt 5) = Inl (Exn TypeErrorC (ascii ''argument of type 'int' is not iterable''))"
    by (simp add: prepare_prompt_def missing_keys_def sum_bind_def quoted_def) (simp add: ascii_def)
  from suggest_raises [OF this]
  have three: "fst (suggest_vlan_grouping ?env ex_client (Inr (PInt 5)) ex_world) =
     Inr (error_body (ascii ''argument of type 'int' is not iterable''), 500)"
    by simp
  from one two three show ?thesis by blast
qed

section \<open>The answer of the backend\<close>






text \<open>
  Claim C4. When the backend was queried and its answer parses as a JSON object, the
  handler returns status 200 and that object with two fields set:
  \<open>human_review_required\<close> is true, whatever the backend put there, and \<open>timestamp\<close>
  is the reading of the UTC clock followed by \<open>Z\<close>. Every other field, and so the
  \<open>suggestion\<close>, the \<open>confidence\<close> and the \<open>reasoning\<close>, is as the backend gave it.
  This holds whether or not the audit record could be written.
\<close>

theorem parsed_suggestion_stamped:
  assumes "prepare_prompt data = Inr (Prepared ssids devices prompt)"
    and "requests_send env (generate_request ollama prompt None) = Responds r"
    and "status_code r = 200"
    and "resp_json r = Inr (PDict kvs)"
    and "map_of kvs (ascii ''response'') = Some (PStr answer)"
    and "json_loads env answer = Inr (PDict parsed)"
  shows "\<exists>body.
           fst (suggest_vlan_grouping env ollama (Inr data) w) = Inr (PDict body, 200)
           \<and> map_of body (ascii ''human_review_required'') = Some (PBool True)
           \<and> map_of body (ascii ''timestamp'') = Some (PStr (utcnow_isoformat env (clock w) @ ascii ''Z''))
           \<and> (\<forall>k. k \<noteq> ascii ''human_review_required'' \<and> k \<noteq> ascii ''timestamp''
                  \<longrightarrow> map_of body k = map_of parsed k)
           \<and> map_of body (ascii ''suggestion'') = map_of parsed (ascii ''suggestion'')
           \<and> map_of body (ascii ''confidence'') = map_of parsed (ascii ''confidence'')
           \<and> map_of body (ascii ''reasoning'') = map_of parsed (ascii ''reasoning'')"
proof -
  from suggest_answered [OF assms(1-5), of w]
  obtain w1 where c: "clock w1 = clock w"
    and r: "fst (suggest_vlan_grouping env ollama (Inr data) w) =
               (case fst (finish_suggestion env ssids devices (PStr answer) w1) of
                  Inl e \<Rightarrow> Inr (error_body (str_exn e), 500)
                | Inr x \<Rightarrow> Inr x)"
    by blast
  define body where
    "body = AList.update (ascii ''timestamp'') (PStr (utcnow_isoformat env (clock w) @ ascii ''Z''))
              (AList.update (ascii ''human_review_required'') (PBool True) parsed)"
  have "fst (suggest_vlan_grouping env ollama (Inr data) w) = Inr (PDict body, 200)"
    unfolding r finish_dict(1) [OF parse_ok [OF assms(6)]] by (simp add: c body_def)
  moreover have "map_of body (ascii ''human_review_required'') = Some (PBool True)"
    by (simp add: body_def update_conv' ascii_def)
  moreover have "map_of body (ascii ''timestamp'') = Some (PStr (utcnow_isoformat env (clock w) @ ascii ''Z''))"
    by (simp add: body_def update_conv')
  moreover have others: "map_of body k = map_of parsed k"
    if "k \<noteq> ascii ''human_review_required''" and "k \<noteq> ascii ''timestamp''" for k
    using that by (simp add: body_def update_conv')
  moreover have "map_of body (ascii ''suggestion'') = map_of parsed (ascii ''suggestion'')"
    by (rule others) (simp_all add: ascii_def)
  moreover have "map_of body (ascii ''confidence'') = map_of parsed (ascii ''confidence'')"
    by (rule others) (simp_all add: ascii_def)
  moreover have "map_of body (ascii ''reasoning'') = map_of parsed (ascii ''reasoning'')"
    by (rule others) (simp_all add: ascii_def)
  ultimately show ?thesis by blast
qed

theorem parsed_suggestion_stamped_witness:
  \<open>\<exists>body.
     fst (suggest_vlan_grouping
            (ex_env (ex_answer (ascii ''{"suggestion": {"lab-101": ["device-261900fb"]}, "confidence": 0.87, "reasoning": "Strong signal", "human_review_required": false}''))
               (Inr (PDict [(ascii ''suggestion'', PDict [(ascii ''lab-101'', PList [PStr (ascii ''device-261900fb'')])]),
                            (ascii ''confidence'', PFloat (ascii ''0.87'')),
                            (ascii ''reasoning'', PStr (ascii ''Strong signal'')),
                            (ascii ''human_review_required'', PBool False)])))
            ex_client (Inr ex_request) ex_world) = Inr (PDict body, 200)
     \<and> map_of body (ascii ''human_review_required'') = Some (PBool True)
     \<and> map_of body (ascii ''timestamp'') = Some (PStr (ascii ''2025-01-19T14:23:45.000000Z''))
     \<and> map_of body (ascii ''suggestion'') =
         Some (PDict [(ascii ''lab-101'', PList [PStr (ascii ''device-261900fb'')])])
     \<and> map_of body (ascii ''confidence'') = Some (PFloat (ascii ''0.87''))
     \<and> map_of body (ascii ''reasoning'') = Some (PStr (ascii ''Strong signal''))\<close>
proof -
  let ?answer = \<open>ascii ''{"suggestion": {"lab-101": ["device-261900fb"]}, "confidence": 0.87, "reasoning": "Strong signal", "human_review_required": false}''\<close>
  let ?parsed = "[(ascii ''suggestion'', PDict [(ascii ''lab-101'', PList [PStr (ascii ''device-261900fb'')])]),
                  (ascii ''confidence'', PFloat (ascii ''0.87'')),
                  (ascii ''reasoning'', PStr (ascii ''Strong signal'')),
                  (ascii ''human_review_required'', PBool False)]"
  have t: "utcnow_isoformat (ex_env (ex_answer ?answer) (Inr (PDict ?parsed))) (clock ex_world) @ ascii ''Z'' =
           ascii ''2025-01-19T14:23:45.000000Z''"
    by (simp add: ex_env_def ex_world_def nat_str.simps) (simp add: ascii_def)
  have s: "map_of ?parsed (ascii ''suggestion'') =
             Some (PDict [(ascii ''lab-101'', PList [PStr (ascii ''device-261900fb'')])])"
    by simp
  have c: "map_of ?parsed (ascii ''confidence'') = Some (PFloat (ascii ''0.87''))"
    by (simp add: ascii_def)
  have g: "map_of ?parsed (ascii ''reasoning'') = Some (PStr (ascii ''Strong signal''))"
    by (simp add: ascii_def)
  let ?env = "ex_env (ex_answer ?answer) (Inr (PDict ?parsed))"
  have p: "requests_send ?env (generate_request ex_client ex_prompt None) =
             Responds \<lparr>status_code = 200, resp_text = [],
                        resp_json = Inr (PDict [(ascii ''response'', PStr ?answer)])\<rparr>"
    "status_code \<lparr>status_code = 200, resp_text = [],
                   resp_json = Inr (PDict [(ascii ''response'', PStr ?answer)])\<rparr> = 200"
    "resp_json \<lparr>status_code = 200, resp_text = [],
                 resp_json = Inr (PDict [(ascii ''response'', PStr ?answer)])\<rparr> =
       Inr (PDict [(ascii ''response'', PStr ?answer)])"
    "map_of [(ascii ''response'', PStr ?answer)] (ascii ''response'') = Some (PStr ?answer)"
    "json_loads ?env ?answer = Inr (PDict ?parsed)"
    by (simp_all add: ex_env_def ex_answer_def)
  from parsed_suggestion_stamped [OF prepare_ex_request p, of ex_world]
  obtain body where b:
    "fst (suggest_vlan_grouping ?env ex_client (Inr ex_request) ex_world) = Inr (PDict body, 200)"
    "map_of body (ascii ''human_review_required'') = Some (PBool True)"
    "map_of body (ascii ''timestamp'') = Some (PStr (utcnow_isoformat ?env (clock ex_world) @ ascii ''Z''))"
    "map_of body (ascii ''suggestion'') = map_of ?parsed (ascii ''suggestion'')"
    "map_of body (ascii ''confidence'') = map_of ?parsed (ascii ''confidence'')"
    "map_of body (ascii ''reasoning'') = map_of ?parsed (ascii ''reasoning'')"
    by blast
  from b(3) have b3: "map_of body (ascii ''timestamp'') = Some (PStr (ascii ''2025-01-19T14:23:45.000000Z''))"
    unfolding t .
  from b(4) have b4: "map_of body (ascii ''suggestion'') =
         Some (PDict [(ascii ''lab-101'', PList [PStr (ascii ''device-261900fb'')])])"
    unfolding s .
  from b(5) have b5: "map_of body (ascii ''confidence'') = Some (PFloat (ascii ''0.87''))"
    unfolding c .
  from b(6) have b6: "map_of body (ascii ''reasoning'') = Some (PStr (ascii ''Strong signal''))"
    unfolding g .
  from b(1,2) b3 b4 b5 b6 show ?thesis by blast
qed

section \<open>Feedback\<close>

lemma feedback_early:
  "missing_keys data (ascii ''timestamp'') (ascii ''decision'') = Inr True \<Longrightarrow>
   record_feedback env (Inr data) w =
     (Inr (error_body (ascii ''Missing 'timestamp' or 'decision'' @ [39]), 400), w)"
  by (simp add: record_feedback_def run_simps)

lemma feedback_raises:
  "missing_keys data (ascii ''timestamp'') (ascii ''decision'') = Inl e \<Longrightarrow>
   record_feedback env (Inr data) w =
     (Inr (error_body (str_exn e), 500),
      w\<lparr>log_records := log_records w @
           [(ERROR, ascii ''Error in feedback endpoint: '' @ str_exn e)]\<rparr>)"
  by (simp add: record_feedback_def run_simps)

lemma feedback_recorded:
  assumes "map_of kvs (ascii ''timestamp'') = Some t" and "map_of kvs (ascii ''decision'') = Some d"
  shows "record_feedback env (Inr (PDict kvs)) w =
     (Inr (PDict [(ascii ''status'', PStr (ascii ''feedback recorded''))], 200),
      snd (log_ai_decision env (ascii ''Feedback for '' @ py_str env t) (PDict []) d
             (case map_of kvs (ascii ''notes'') of Some n \<Rightarrow> n | None \<Rightarrow> PStr [])
             (w\<lparr>log_records := log_records w @
                  [(INFO, ascii ''Recording feedback: '' @ py_str env d @ ascii '' for '' @ py_str env t)]\<rparr>)))"
proof -
  from assms(1) have "kvs \<noteq> []" by auto
  with assms show ?thesis
    by (simp add: record_feedback_def missing_keys_dict run_simps bind_log_ai_decision)
qed

text \<open>
  Claim C9, as amended. A feedback payload that is empty, or that is a JSON object
  without \<open>timestamp\<close> or without \<open>decision\<close>, is answered with status 400 and the
  reason \<open>"Missing 'timestamp' or 'decision'"\<close>, and nothing is written. A JSON object
  with both, whatever their values, is answered with status 200 and the body
  \<open>{"status": "feedback recorded"}\<close>; one line, the audit record of this feedback,
  is appended to the decision log, unless writing it fails, in which case the log is
  as before, the failure is logged as an error, and the answer is the same.
\<close>

theorem feedback_outcomes:
  "(\<not> truthy data \<longrightarrow>
      record_feedback env (Inr data) w =
        (Inr (error_body (ascii ''Missing 'timestamp' or 'decision'' @ [39]), 400), w))
   \<and> (data = PDict kvs \<and> (map_of kvs (ascii ''timestamp'') = None \<or> map_of kvs (ascii ''decision'') = None) \<longrightarrow>
      record_feedback env (Inr data) w =
        (Inr (error_body (ascii ''Missing 'timestamp' or 'decision'' @ [39]), 400), w))
   \<and> (data = PDict kvs \<and> map_of kvs (ascii ''timestamp'') = Some t \<and> map_of kvs (ascii ''decision'') = Some d \<longrightarrow>
      (let line = json_dumps None
                    (audit_entry (utcnow_isoformat env (clock w)) (ascii ''Feedback for '' @ py_str env t)
                       (PDict []) d (case map_of kvs (ascii ''notes'') of Some n \<Rightarrow> n | None \<Rightarrow> PStr [])) @ [10]
       in fst (record_feedback env (Inr data) w) =
            Inr (PDict [(ascii ''status'', PStr (ascii ''feedback recorded''))], 200)
          \<and> (open_append_error env line = None \<longrightarrow>
               audit_file (snd (record_feedback env (Inr data) w)) = audit_file w @ [line])
          \<and> (\<forall>e. open_append_error env line = Some e \<longrightarrow>
               audit_file (snd (record_feedback env (Inr data) w)) = audit_file w
               \<and> last (log_records (snd (record_feedback env (Inr data) w))) =
                   (ERROR, ascii ''Failed to log AI decision: '' @ str_exn e))))"
proof (intro conjI impI)
  assume "\<not> truthy data"
  then show "record_feedback env (Inr data) w =
        (Inr (error_body (ascii ''Missing 'timestamp' or 'decision'' @ [39]), 400), w)"
    by (intro feedback_early missing_keys_falsy)
next
  assume "data = PDict kvs \<and> (map_of kvs (ascii ''timestamp'') = None \<or> map_of kvs (ascii ''decision'') = None)"
  then show "record_feedback env (Inr data) w =
        (Inr (error_body (ascii ''Missing 'timestamp' or 'decision'' @ [39]), 400), w)"
    by (intro feedback_early) (auto simp: missing_keys_dict)
next
  assume "data = PDict kvs \<and> map_of kvs (ascii ''timestamp'') = Some t \<and> map_of kvs (ascii ''decision'') = Some d"
  then have d: "data = PDict kvs" and k: "map_of kvs (ascii ''timestamp'') = Some t"
    "map_of kvs (ascii ''decision'') = Some d"
    by simp_all
  show "let line = json_dumps None
                    (audit_entry (utcnow_isoformat env (clock w)) (ascii ''Feedback for '' @ py_str env t)
                       (PDict []) d (case map_of kvs (ascii ''notes'') of Some n \<Rightarrow> n | None \<Rightarrow> PStr [])) @ [10]
       in fst (record_feedback env (Inr data) w) =
            Inr (PDict [(ascii ''status'', PStr (ascii ''feedback recorded''))], 200)
          \<and> (open_append_error env line = None \<longrightarrow>
               audit_file (snd (record_feedback env (Inr data) w)) = audit_file w @ [line])
          \<and> (\<forall>e. open_append_error env line = Some e \<longrightarrow>
               audit_file (snd (record_feedback env (Inr data) w)) = audit_file w
               \<and> last (log_records (snd (record_feedback env (Inr data) w))) =
                   (ERROR, ascii ''Failed to log AI decision: '' @ str_exn e))"
    unfolding d feedback_recorded [OF k] Let_def
    by (simp add: log_ai_decision_run)
qed


theorem feedback_outcomes_witness:
  \<open>record_feedback (ex_env (ex_answer (ascii ''{}'')) (Inr PNone))
       (Inr (PDict [(ascii ''decision'', PStr (ascii ''approved''))])) ex_world =
     (Inr (error_body (ascii ''Missing 'timestamp' or 'decision'' @ [39]), 400), ex_world)
   \<and> fst (record_feedback (ex_env (ex_answer (ascii ''{}'')) (Inr PNone))
            (Inr (PDict [(ascii ''timestamp'', PStr (ascii ''2025-01-19T14:23:45Z'')),
                         (ascii ''decision'', PStr (ascii ''approved'')),
                         (ascii ''notes'', PStr (ascii ''ok''))])) ex_world) =
       Inr (PDict [(ascii ''status'', PStr (ascii ''feedback recorded''))], 200)
   \<and> audit_file (snd (record_feedback (ex_env (ex_answer (ascii ''{}'')) (Inr PNone))
            (Inr (PDict [(ascii ''timestamp'', PStr (ascii ''2025-01-19T14:23:45Z'')),
                         (ascii ''decision'', PStr (ascii ''approved'')),
                         (ascii ''notes'', PStr (ascii ''ok''))])) ex_world)) =
       [ascii ''{"timestamp": "2025-01-19T14:23:45.000000Z", "query": "Feedback for 2025-01-19T14:23:45Z", "ai_suggestion": {}, "human_decision": "approved", "notes": "ok"}'' @ [10]]
   \<and> fst (record_feedback (ex_env_readonly (ex_answer (ascii ''{}'')) (Inr PNone))
            (Inr (PDict [(ascii ''timestamp'', PStr (ascii ''2025-01-19T14:23:45Z'')),
                         (ascii ''decision'', PStr (ascii ''approved'')),
                         (ascii ''notes'', PStr (ascii ''ok''))])) ex_world) =
       Inr (PDict [(ascii ''status'', PStr (ascii ''feedback recorded''))], 200)
   \<and> audit_file (snd (record_feedback (ex_env_readonly (ex_answer (ascii ''{}'')) (Inr PNone))
            (Inr (PDict [(ascii ''timestamp'', PStr (ascii ''2025-01-19T14:23:45Z'')),
                         (ascii ''decision'', PStr (ascii ''approved'')),
                         (ascii ''notes'', PStr (ascii ''ok''))])) ex_world)) = []
   \<and> last (log_records (snd (record_feedback (ex_env_readonly (ex_answer (ascii ''{}'')) (Inr PNone))
            (Inr (PDict [(ascii ''timestamp'', PStr (ascii ''2025-01-19T14:23:45Z'')),
                         (ascii ''decision'', PStr (ascii ''approved'')),
                         (ascii ''notes'', PStr (ascii ''ok''))])) ex_world))) =
       (ERROR, ascii ''Failed to log AI decision: [Errno 13] Permission denied'')\<close>
proof -
  let ?E = "ex_env (ex_answer (ascii ''{}'')) (Inr PNone)"
  let ?R = "ex_env_readonly (ex_answer (ascii ''{}'')) (Inr PNone)"
  let ?T = "PStr (ascii ''2025-01-19T14:23:45Z'')"
  let ?D = "PStr (ascii ''approved'')"
  let ?full = "[(ascii ''timestamp'', ?T), (ascii ''decision'', ?D), (ascii ''notes'', PStr (ascii ''ok''))]"
  let ?line = "\<lambda>env. json_dumps None
                 (audit_entry (utcnow_isoformat env (clock ex_world)) (ascii ''Feedback for '' @ py_str env ?T)
                    (PDict []) ?D (case map_of ?full (ascii ''notes'') of Some n \<Rightarrow> n | None \<Rightarrow> PStr [])) @ [10]"
  have L: \<open>?line ?E =
     ascii ''{"timestamp": "2025-01-19T14:23:45.000000Z", "query": "Feedback for 2025-01-19T14:23:45Z", "ai_suggestion": {}, "human_decision": "approved", "notes": "ok"}'' @ [10]\<close>
    by (simp add: json_dumps_def audit_entry_def item_separator_def newline_indent_def json_str_def
          ex_env_def ex_world_def nat_str.simps ascii_def escape_char_def)
  have k1: "PDict [(ascii ''decision'', ?D)] = PDict [(ascii ''decision'', ?D)]
            \<and> (map_of [(ascii ''decision'', ?D)] (ascii ''timestamp'') = None
                \<or> map_of [(ascii ''decision'', ?D)] (ascii ''decision'') = None)"
    by (simp add: ascii_def)
  have k2: "PDict ?full = PDict ?full \<and> map_of ?full (ascii ''timestamp'') = Some ?T
            \<and> map_of ?full (ascii ''decision'') = Some ?D"
    by (simp add: ascii_def)
  note i1 = feedback_outcomes [where env = ?E and w = ex_world, THEN conjunct2, THEN conjunct1, THEN mp, OF k1]
  note i2 = feedback_outcomes [where env = ?E and w = ex_world, THEN conjunct2, THEN conjunct2, THEN mp,
                               OF k2, unfolded Let_def]
  note i3 = feedback_outcomes [where env = ?R and w = ex_world, THEN conjunct2, THEN conjunct2, THEN mp,
                               OF k2, unfolded Let_def]
  have o: "open_append_error ?E x = None"
    "open_append_error ?R x = Some (Exn OtherErrorC (ascii ''[Errno 13] Permission denied''))" for x
    by (simp_all add: ex_env_def ex_env_readonly_def)
  have a2: "audit_file (snd (record_feedback ?E (Inr (PDict ?full)) ex_world)) =
      audit_file ex_world @ [?line ?E]"
    by (rule i2 [THEN conjunct2, THEN conjunct1, THEN mp, OF o(1)])
  note i4 = i3 [THEN conjunct2, THEN conjunct2, THEN spec, THEN mp, OF o(2)]
  have a3: "audit_file (snd (record_feedback ?R (Inr (PDict ?full)) ex_world)) = audit_file ex_world"
    "last (log_records (snd (record_feedback ?R (Inr (PDict ?full)) ex_world))) =
       (ERROR, ascii ''Failed to log AI decision: '' @
               str_exn (Exn OtherErrorC (ascii ''[Errno 13] Permission denied'')))"
    by (rule i4 [THEN conjunct1], rule i4 [THEN conjunct2])
  have e: "audit_file ex_world = []"
    by (simp add: ex_world_def)
  have m: "ascii ''Failed to log AI decision: '' @
               str_exn (Exn OtherErrorC (ascii ''[Errno 13] Permission denied'')) =
           ascii ''Failed to log AI decision: [Errno 13] Permission denied''"
    by (simp add: ascii_def)
  from i1 i2 [THEN conjunct1] i3 [THEN conjunct1] a2 [unfolded L e] a3 [unfolded e m]
  show ?thesis by simp
qed

text \<open>
  Claim C9 as stated fails: a payload without \<open>timestamp\<close> and \<open>decision\<close> is not
  always answered with status 400. For the payload \<open>5\<close> the test \<open>"timestamp" not in
  data\<close> raises \<open>TypeError\<close>, and the endpoint answers with status 500.
\<close>

theorem feedback_payload_not_object:
  "fst (record_feedback (ex_env (ex_answer (ascii ''{}'')) (Inr PNone)) (Inr (PInt 5)) ex_world) =
     Inr (error_body (ascii ''argument of type 'int' is not iterable''), 500)
   \<and> audit_file (snd (record_feedback (ex_env (ex_answer (ascii ''{}'')) (Inr PNone)) (Inr (PInt 5)) ex_world)) = []"
proof -
  have "missing_keys (PInt 5) (ascii ''timestamp'') (ascii ''decision'') =
          Inl (Exn TypeErrorC (ascii ''argument of type 'int' is not iterable''))"
    by (simp add: missing_keys_def sum_bind_def quoted_def) (simp add: ascii_def)
  from feedback_raises [OF this] show ?thesis
    by (simp add: ex_world_def)
qed

end
